theory Spec2Isabelle
  imports Complex_Main
begin

section \<open>FX30 grain match: the ISO parameter table and the grain pattern generator\<close>

text \<open>
  The development embeds the synthesis core of \<^verbatim>\<open>fx30-grain-match-plugin.py\<close>:
  the tables \<^verbatim>\<open>ISO_PRESETS\<close> and \<^verbatim>\<open>GRAIN_PARAMETERS\<close>, the constructor of
  \<^verbatim>\<open>FX30GrainPattern\<close> and its method \<^verbatim>\<open>generate_pattern\<close>.

  Python floats are embedded as \<^typ>\<open>real\<close>, and in the embedding of the method every
  product is the exact product. The rounding of float64 is treated apart, for the one
  statement that depends on it, in the subsection on float64 products. Python integers
  are \<^typ>\<open>int\<close>.
\<close>

subsection \<open>Values and errors\<close>

text \<open>
  A seed is whatever number the caller hands to the constructor: an integer (the default
  \<^verbatim>\<open>seed=1\<close>) or a float (the node's \<^verbatim>\<open>seed\<close> is a \<^verbatim>\<open>FloatProperty\<close>).
\<close>

datatype pynum = PyInt int | PyFloat real

text \<open>
  The exceptions the embedded code can raise: a missing dictionary key on subscripting,
  the two ways in which the legacy generator of numpy rejects a seed, and the three ways
  in which it fails to create the array of a draw.
\<close>

datatype error =
  KeyError | SeedOutOfRange | SeedNotInteger | NegativeDimensions | ArrayTooBig | OutOfMemory

subsection \<open>The tables\<close>

text \<open>
  The tuple format of \<^verbatim>\<open>GRAIN_PARAMETERS\<close> is
  \<^verbatim>\<open>(intensity, size, roughness, color_influence, luma_influence, chroma_bias)\<close>.
\<close>

record grain_params =
  intensity :: real
  size_param :: real
  roughness :: real
  color_influence :: real
  luma_influence :: real
  chroma_bias :: real

definition params ::
  "real \<Rightarrow> real \<Rightarrow> real \<Rightarrow> real \<Rightarrow> real \<Rightarrow> real \<Rightarrow> grain_params" where
  "params i s r c l b =
     \<lparr>intensity = i, size_param = s, roughness = r,
      color_influence = c, luma_influence = l, chroma_bias = b\<rparr>"

definition ISO_PRESETS :: "(string \<times> string \<times> string) list" where
  "ISO_PRESETS =
    [(''80'', ''ISO 80'', ''Sony FX30 ISO 80 grain structure''),
     (''100'', ''ISO 100'', ''Sony FX30 ISO 100 grain structure''),
     (''200'', ''ISO 200'', ''Sony FX30 ISO 200 grain structure''),
     (''400'', ''ISO 400'', ''Sony FX30 ISO 400 grain structure''),
     (''800'', ''ISO 800'', ''Sony FX30 ISO 800 grain structure''),
     (''1600'', ''ISO 1600'', ''Sony FX30 ISO 1600 grain structure''),
     (''3200'', ''ISO 3200'', ''Sony FX30 ISO 3200 grain structure''),
     (''6400'', ''ISO 6400'', ''Sony FX30 ISO 6400 grain structure''),
     (''12800'', ''ISO 12800'', ''Sony FX30 ISO 12800 grain structure''),
     (''25600'', ''ISO 25600'', ''Sony FX30 ISO 25600 grain structure''),
     (''32000'', ''ISO 32000'', ''Sony FX30 ISO 32000 grain structure''),
     (''64000'', ''ISO 64000'', ''Sony FX30 ISO 64000 grain structure''),
     (''102400'', ''ISO 102400'', ''Sony FX30 ISO 102400 grain structure'')]"

definition GRAIN_PARAMETERS :: "(string \<times> grain_params) list" where
  "GRAIN_PARAMETERS =
    [(''80'', params 0.08 0.32 0.60 0.03 0.95 0.02),
     (''100'', params 0.10 0.35 0.62 0.04 0.94 0.03),
     (''200'', params 0.15 0.40 0.65 0.05 0.92 0.04),
     (''400'', params 0.22 0.45 0.68 0.07 0.90 0.06),
     (''800'', params 0.35 0.52 0.72 0.09 0.87 0.08),
     (''1600'', params 0.48 0.58 0.76 0.12 0.83 0.11),
     (''3200'', params 0.65 0.64 0.80 0.16 0.78 0.15),
     (''6400'', params 0.85 0.70 0.84 0.21 0.72 0.20),
     (''12800'', params 1.15 0.78 0.88 0.28 0.65 0.26),
     (''25600'', params 1.40 0.84 0.92 0.36 0.58 0.32),
     (''32000'', params 1.65 0.88 0.94 0.42 0.52 0.38),
     (''64000'', params 1.95 0.92 0.96 0.48 0.45 0.46),
     (''102400'', params 2.30 0.96 0.98 0.55 0.38 0.52)]"

text \<open>
  Python dictionaries, read only: \<^verbatim>\<open>d[k]\<close> raises \<^verbatim>\<open>KeyError\<close> on a missing key,
  \<^verbatim>\<open>d.get(k, default)\<close> returns the default instead.
\<close>

definition dict_getitem :: "('k \<times> 'v) list \<Rightarrow> 'k \<Rightarrow> error + 'v" where
  "dict_getitem d k = (case map_of d k of None \<Rightarrow> Inl KeyError | Some v \<Rightarrow> Inr v)"

definition dict_get :: "('k \<times> 'v) list \<Rightarrow> 'k \<Rightarrow> 'v \<Rightarrow> 'v" where
  "dict_get d k dflt = (case map_of d k of None \<Rightarrow> dflt | Some v \<Rightarrow> v)"

subsection \<open>The pattern object\<close>

record FX30GrainPattern =
  iso :: string
  seed :: pynum
  parameters :: grain_params

text \<open>
  \<^verbatim>\<open>__init__(self, iso="800", seed=1)\<close>. The default of \<^verbatim>\<open>get\<close> is an argument, so
  \<^verbatim>\<open>GRAIN_PARAMETERS["800"]\<close> is evaluated first, whatever \<^verbatim>\<open>iso\<close> is.
\<close>

definition init :: "string \<Rightarrow> pynum \<Rightarrow> error + FX30GrainPattern" where
  "init iso_arg seed_arg =
     (case dict_getitem GRAIN_PARAMETERS ''800'' of
        Inl e \<Rightarrow> Inl e
      | Inr dflt \<Rightarrow>
          Inr \<lparr>iso = iso_arg, seed = seed_arg,
               parameters = dict_get GRAIN_PARAMETERS iso_arg dflt\<rparr>)"

subsection \<open>The process-wide generator of numpy\<close>

text \<open>
  \<^verbatim>\<open>np.random.seed\<close> and \<^verbatim>\<open>np.random.normal\<close> act on one generator shared by the whole
  process. After a call of \<^verbatim>\<open>np.random.seed(s)\<close> the generator is determined by \<open>s\<close> and
  by the number of normal samples drawn since, so the state keeps these two. The samples
  themselves are a parameter \<open>gauss\<close> of the model: \<open>gauss s n\<close> is the sample number \<open>n\<close>
  of the stream that seed \<open>s\<close> starts. The memory of the machine is a second parameter
  \<open>cap\<close>: the largest number of float64 values for which the process can create the
  arrays of one call.
\<close>

record rng_state =
  rng_seed :: nat
  rng_drawn :: nat

type_synonym 'a np = "rng_state \<Rightarrow> (error + 'a) \<times> rng_state"

definition np_return :: "'a \<Rightarrow> 'a np" where
  "np_return x g = (Inr x, g)"

definition np_bind :: "'a np \<Rightarrow> ('a \<Rightarrow> 'b np) \<Rightarrow> 'b np" where
  "np_bind m f g = (case m g of (Inl e, g') \<Rightarrow> (Inl e, g') | (Inr x, g') \<Rightarrow> f x g')"

text \<open>
  \<^verbatim>\<open>np.random.seed(s)\<close>: an integer from \<open>0\<close> to \<open>2\<^sup>3\<^sup>2 - 1\<close> restarts the generator;
  any other integer is a \<^verbatim>\<open>ValueError\<close> ("Seed must be between 0 and 2**32 - 1"), a float
  is a \<^verbatim>\<open>TypeError\<close> (it cannot be cast safely to an integer). A rejected seed leaves the
  generator as it was.
\<close>

definition np_random_seed :: "pynum \<Rightarrow> unit np" where
  "np_random_seed s g =
     (case s of
        PyInt i \<Rightarrow>
          if 0 \<le> i \<and> i \<le> 2 ^ 32 - 1
          then (Inr (), \<lparr>rng_seed = nat i, rng_drawn = 0\<rparr>)
          else (Inl SeedOutOfRange, g)
      | PyFloat x \<Rightarrow> (Inl SeedNotInteger, g))"

text \<open>
  The array of a draw is created first. numpy walks through the dimensions with the
  size in bytes so far, starting from the 8 bytes of one float64: a dimension 0 is
  skipped, a negative dimension is a \<^verbatim>\<open>ValueError\<close> ("negative dimensions are not
  allowed"), and a product beyond \<open>2\<^sup>6\<^sup>3 - 1\<close> bytes is a \<^verbatim>\<open>ValueError\<close> ("array is too
  big").
\<close>

fun check_dims :: "int \<Rightarrow> int list \<Rightarrow> error option" where
  "check_dims nbytes [] = None"
| "check_dims nbytes (d # ds) =
     (if d = 0 then check_dims nbytes ds
      else if d < 0 then Some NegativeDimensions
      else if 2 ^ 63 - 1 < nbytes * d then Some ArrayTooBig
      else check_dims (nbytes * d) ds)"

definition sample_grid :: "(nat \<Rightarrow> nat \<Rightarrow> real) \<Rightarrow> nat \<Rightarrow> nat \<Rightarrow> nat \<Rightarrow> nat \<Rightarrow> real list list" where
  "sample_grid gauss s start h w =
     map (\<lambda>r. map (\<lambda>c. gauss s (start + r * w + c)) [0..<w]) [0..<h]"

text \<open>
  \<^verbatim>\<open>np.random.normal(0, 1, (height, width))\<close>: when the shape passes the checks above and
  the machine has the memory (a \<^verbatim>\<open>MemoryError\<close> otherwise), the next \<open>height * width\<close>
  samples fill the rows in order. A failed draw leaves the generator as it was.
\<close>

definition np_random_normal ::
  "(nat \<Rightarrow> nat \<Rightarrow> real) \<Rightarrow> nat \<Rightarrow> int \<times> int \<Rightarrow> real list list np" where
  "np_random_normal gauss cap shape g =
     (case shape of (height, width) \<Rightarrow>
        case check_dims 8 [height, width] of
          Some e \<Rightarrow> (Inl e, g)
        | None \<Rightarrow>
            let h = nat height; w = nat width in
            if cap < h * w then (Inl OutOfMemory, g)
            else
              (Inr (sample_grid gauss (rng_seed g) (rng_drawn g) h w),
               g\<lparr>rng_drawn := rng_drawn g + h * w\<rparr>))"

text \<open>An array times a scalar.\<close>

definition smul :: "real list list \<Rightarrow> real \<Rightarrow> real list list" where
  "smul a c = map (map (\<lambda>x. x * c)) a"

subsection \<open>Pattern generation\<close>

record noise_field =
  luma :: "real list list"
  red :: "real list list"
  green :: "real list list"
  blue :: "real list list"
  field_size :: real
  field_roughness :: real
  field_chroma_bias :: real

text \<open>Lines 109 to 127 of the method: the four draws and their scaling.\<close>

definition draw_fields ::
  "(nat \<Rightarrow> nat \<Rightarrow> real) \<Rightarrow> nat \<Rightarrow> FX30GrainPattern \<Rightarrow> int \<Rightarrow> int \<Rightarrow> noise_field np" where
  "draw_fields gauss cap self width height =
     np_bind (np_random_normal gauss cap (height, width)) (\<lambda>luma_noise.
     np_bind (np_random_normal gauss cap (height, width)) (\<lambda>r_raw.
     np_bind (np_random_normal gauss cap (height, width)) (\<lambda>g_raw.
     np_bind (np_random_normal gauss cap (height, width)) (\<lambda>b_raw.
       let p = parameters self;
           r_noise = smul (smul r_raw (color_influence p)) 1.2;
           g_noise = smul (smul g_raw (color_influence p)) 0.8;
           b_noise = smul (smul b_raw (color_influence p)) 1.4
       in np_return
            \<lparr>luma = smul (smul luma_noise (intensity p)) (luma_influence p),
             red = smul (smul r_noise (intensity p)) (1 - luma_influence p),
             green = smul (smul g_noise (intensity p)) (1 - luma_influence p),
             blue = smul (smul b_noise (intensity p)) (1 - luma_influence p),
             field_size = size_param p,
             field_roughness = roughness p,
             field_chroma_bias = chroma_bias p\<rparr>))))"

text \<open>The method: line 107 re-seeds the process-wide generator, then the draws follow.\<close>

definition generate_pattern ::
  "(nat \<Rightarrow> nat \<Rightarrow> real) \<Rightarrow> nat \<Rightarrow> FX30GrainPattern \<Rightarrow> int \<Rightarrow> int \<Rightarrow> noise_field np" where
  "generate_pattern gauss cap self width height =
     np_bind (np_random_seed (seed self)) (\<lambda>_. draw_fields gauss cap self width height)"

text \<open>
  The call \<^verbatim>\<open>FX30GrainPattern(iso, seed).generate_pattern(width, height)\<close>.
\<close>

definition generate ::
  "(nat \<Rightarrow> nat \<Rightarrow> real) \<Rightarrow> nat \<Rightarrow> string \<Rightarrow> pynum \<Rightarrow> int \<Rightarrow> int \<Rightarrow> noise_field np" where
  "generate gauss cap iso_arg seed_arg width height g =
     (case init iso_arg seed_arg of
        Inl e \<Rightarrow> (Inl e, g)
      | Inr self \<Rightarrow> generate_pattern gauss cap self width height g)"

text \<open>
  Two calls that overlap: call \<open>a\<close> has executed line 107 when a call \<open>b\<close> runs from
  its first line to its last, and then call \<open>a\<close> goes on with line 109. Both calls act
  on the one process-wide generator.
\<close>

definition overlapped ::
  "(nat \<Rightarrow> nat \<Rightarrow> real) \<Rightarrow> nat \<Rightarrow> FX30GrainPattern \<Rightarrow> int \<Rightarrow> int \<Rightarrow>
   FX30GrainPattern \<Rightarrow> int \<Rightarrow> int \<Rightarrow> (noise_field \<times> noise_field) np" where
  "overlapped gauss cap a width_a height_a b width_b height_b =
     np_bind (np_random_seed (seed a)) (\<lambda>_.
     np_bind (generate_pattern gauss cap b width_b height_b) (\<lambda>field_b.
     np_bind (draw_fields gauss cap a width_a height_a) (\<lambda>field_a.
       np_return (field_a, field_b))))"

subsection \<open>Float64 products\<close>

text \<open>
  A float64 operation returns the float64 value nearest to the exact result, the one
  with the even significand when two are equally near. For \<open>x\<close> with
  \<open>2\<^sup>e \<le> \<bar>x\<bar> < 2\<^sup>e\<^sup>+\<^sup>1\<close> the float64 values around \<open>x\<close> are the multiples of \<open>2\<^sup>e\<^sup>-\<^sup>5\<^sup>2\<close>.
  Overflow and subnormal numbers are left out: they are far from the values of this
  program.
\<close>

definition round_half_even :: "real \<Rightarrow> int" where
  "round_half_even x =
     (let f = \<lfloor>x\<rfloor>; d = x - of_int f
      in if d < 1 / 2 then f else if 1 / 2 < d then f + 1 else if even f then f else f + 1)"

definition fl64 :: "real \<Rightarrow> real" where
  "fl64 x =
     (if x = 0 then 0
      else
        let ulp = 2 powr (of_int \<lfloor>log 2 \<bar>x\<bar>\<rfloor> - 52)
        in of_int (round_half_even (x / ulp)) * ulp)"

text \<open>An array times a scalar in float64.\<close>

definition smul_f64 :: "real list list \<Rightarrow> real \<Rightarrow> real list list" where
  "smul_f64 a c = map (map (\<lambda>x. fl64 (x * c))) a"

text \<open>
  Line 120 in float64, \<^verbatim>\<open>luma_noise * intensity * luma_influence\<close>: the parameters are
  the float64 values of the literals of the table, and each of the two products is
  rounded.
\<close>

definition luma_f64 :: "grain_params \<Rightarrow> real list list \<Rightarrow> real list list" where
  "luma_f64 p luma_noise =
     smul_f64 (smul_f64 luma_noise (fl64 (intensity p))) (fl64 (luma_influence p))"

subsection \<open>Auxiliary notions for the statements\<close>

text \<open>
  The shapes for which a draw succeeds: no negative dimension, at most \<open>2\<^sup>6\<^sup>3 - 1\<close> bytes
  for the dimensions other than 0, and at most \<open>cap\<close> values. Lemma \<open>normal_ok\<close> below
  proves that these are the shapes \<open>np_random_normal\<close> accepts.
\<close>

definition shape_fits :: "nat \<Rightarrow> int \<Rightarrow> int \<Rightarrow> bool" where
  "shape_fits cap height width \<longleftrightarrow>
     0 \<le> height \<and> 0 \<le> width \<and> 8 * max 1 height * max 1 width \<le> 2 ^ 63 - 1 \<and>
     nat height * nat width \<le> cap"

text \<open>
  The field that a call with an accepted seed \<open>s\<close> and the dimensions \<open>h\<close>, \<open>w\<close>
  returns, with the chained multiplications of the source collected into one factor per
  grid; lemma \<open>gp_cases\<close> below proves that \<open>generate_pattern\<close> returns it.
\<close>

definition scaled_field ::
  "(nat \<Rightarrow> nat \<Rightarrow> real) \<Rightarrow> grain_params \<Rightarrow> nat \<Rightarrow> nat \<Rightarrow> nat \<Rightarrow> noise_field" where
  "scaled_field gauss p s h w =
     \<lparr>luma = smul (sample_grid gauss s 0 h w) (intensity p * luma_influence p),
      red = smul (sample_grid gauss s (h * w) h w)
              (color_influence p * 1.2 * intensity p * (1 - luma_influence p)),
      green = smul (sample_grid gauss s (h * w + h * w) h w)
              (color_influence p * 0.8 * intensity p * (1 - luma_influence p)),
      blue = smul (sample_grid gauss s (h * w + h * w + h * w) h w)
              (color_influence p * 1.4 * intensity p * (1 - luma_influence p)),
      field_size = size_param p,
      field_roughness = roughness p,
      field_chroma_bias = chroma_bias p\<rparr>"

text \<open>
  The mean absolute value of a grid, \<^verbatim>\<open>mean(abs(a))\<close>. It is only used on grids with at
  least one value.
\<close>

definition mean_abs :: "real list list \<Rightarrow> real" where
  "mean_abs a = sum_list (map abs (concat a)) / real (length (concat a))"

text \<open>
  A sample stream for evaluating the model on concrete inputs. The general theorems hold
  for every stream.
\<close>

definition demo_gauss :: "nat \<Rightarrow> nat \<Rightarrow> real" where
  "demo_gauss s n = (real s + real n + 1) / 4"

section \<open>Table lookup\<close>

lemma getitem_800:
  "dict_getitem GRAIN_PARAMETERS ''800'' = Inr (params 0.35 0.52 0.72 0.09 0.87 0.08)"
  by (simp add: dict_getitem_def GRAIN_PARAMETERS_def)

lemma init_eq:
  "init i s =
     Inr \<lparr>iso = i, seed = s,
          parameters = dict_get GRAIN_PARAMETERS i (params 0.35 0.52 0.72 0.09 0.87 0.08)\<rparr>"
  by (simp add: init_def getitem_800)

lemma get_unknown: "i \<notin> set (map fst GRAIN_PARAMETERS) \<Longrightarrow> dict_get GRAIN_PARAMETERS i d = d"
  by (simp add: dict_get_def map_of_eq_None_iff[THEN iffD2])

lemma get_80: "dict_get GRAIN_PARAMETERS ''80'' d = params 0.08 0.32 0.60 0.03 0.95 0.02"
  by (simp add: dict_get_def GRAIN_PARAMETERS_def)

lemma get_800: "dict_get GRAIN_PARAMETERS ''800'' d = params 0.35 0.52 0.72 0.09 0.87 0.08"
  by (simp add: dict_get_def GRAIN_PARAMETERS_def)

lemma get_3200: "dict_get GRAIN_PARAMETERS ''3200'' d = params 0.65 0.64 0.80 0.16 0.78 0.15"
  by (simp add: dict_get_def GRAIN_PARAMETERS_def)

lemma get_102400: "dict_get GRAIN_PARAMETERS ''102400'' d = params 2.30 0.96 0.98 0.55 0.38 0.52"
  by (simp add: dict_get_def GRAIN_PARAMETERS_def)

lemma keys_presets: "map fst GRAIN_PARAMETERS = map fst ISO_PRESETS"
  by (simp add: GRAIN_PARAMETERS_def ISO_PRESETS_def)

lemma resolved_in_table:
  "dict_get GRAIN_PARAMETERS i (params 0.35 0.52 0.72 0.09 0.87 0.08) \<in> snd ` set GRAIN_PARAMETERS"
proof (cases "map_of GRAIN_PARAMETERS i")
  case None
  then show ?thesis by (simp add: dict_get_def GRAIN_PARAMETERS_def)
next
  case (Some p)
  then have "(i, p) \<in> set GRAIN_PARAMETERS" by (rule map_of_SomeD)
  with Some show ?thesis by (force simp add: dict_get_def)
qed

lemma table_scale_pos: "p \<in> snd ` set GRAIN_PARAMETERS \<Longrightarrow> 0 < intensity p * luma_influence p"
  by (auto simp add: GRAIN_PARAMETERS_def params_def)

text \<open>
  Claim C4. Constructing a pattern never fails, whatever the iso identifier is, and for an
  identifier that is not one of the 13 keys of the table the resolved parameters are
  those resolved for \<^verbatim>\<open>"800"\<close>. The constructor only reads the table.
\<close>

theorem init_fallback:
  "(\<exists>p. init i s = Inr p) \<and>
   (i \<notin> set (map fst GRAIN_PARAMETERS) \<longrightarrow>
      (\<exists>p q. init i s = Inr p \<and> init ''800'' s = Inr q \<and> parameters p = parameters q))"
  by (simp add: init_eq get_unknown get_800)

theorem init_fallback_witness:
  "''not-a-real-iso'' \<notin> set (map fst GRAIN_PARAMETERS) \<and>
   (\<exists>p q. init ''not-a-real-iso'' (PyInt 1) = Inr p \<and> init ''800'' (PyInt 1) = Inr q \<and>
          parameters p = parameters q)"
proof -
  have k: "''not-a-real-iso'' \<notin> set (map fst GRAIN_PARAMETERS)"
    by (simp add: GRAIN_PARAMETERS_def)
  with init_fallback [of "''not-a-real-iso''" "PyInt 1"] show ?thesis by blast
qed

text \<open>
  Claim C5. The table lists its 13 entries by increasing ISO value; along that order
  intensity, size, roughness, color influence and chroma bias never decrease and luma
  influence never increases.
\<close>

theorem table_monotone:
  "map fst GRAIN_PARAMETERS =
     [''80'', ''100'', ''200'', ''400'', ''800'', ''1600'', ''3200'', ''6400'',
      ''12800'', ''25600'', ''32000'', ''64000'', ''102400''] \<and>
   sorted (map (intensity \<circ> snd) GRAIN_PARAMETERS) \<and>
   sorted (map (size_param \<circ> snd) GRAIN_PARAMETERS) \<and>
   sorted (map (roughness \<circ> snd) GRAIN_PARAMETERS) \<and>
   sorted (map (color_influence \<circ> snd) GRAIN_PARAMETERS) \<and>
   sorted (map (chroma_bias \<circ> snd) GRAIN_PARAMETERS) \<and>
   sorted (rev (map (luma_influence \<circ> snd) GRAIN_PARAMETERS))"
  by (simp add: GRAIN_PARAMETERS_def params_def)

section \<open>Every outcome of a generation call\<close>

lemma smul_smul: "smul (smul a x) y = smul a (x * y)"
  by (simp add: smul_def mult.assoc)

lemma smul_rescale: "c \<noteq> 0 \<Longrightarrow> smul (smul a c) (d / c) = smul a d"
  by (simp add: smul_smul)

lemma seed_ok:
  "np_random_seed s g = (Inr u, g0) \<longleftrightarrow>
   (\<exists>n. s = PyInt n \<and> 0 \<le> n \<and> n \<le> 2 ^ 32 - 1 \<and> g0 = \<lparr>rng_seed = nat n, rng_drawn = 0\<rparr>)"
  by (cases s) (auto simp add: np_random_seed_def)

lemma check_dims_none:
  "check_dims 8 [h, w] = None \<longleftrightarrow>
   0 \<le> h \<and> 0 \<le> w \<and> 8 * max 1 h * max 1 w \<le> 2 ^ 63 - 1"
proof (cases "0 < h \<and> 0 < w")
  case True
  then have "8 * h \<le> 8 * h * w" by (simp add: mult_le_cancel_left1)
  then have "2 ^ 63 - 1 < 8 * h \<Longrightarrow> 2 ^ 63 - 1 < 8 * h * w" by (rule less_le_trans [rotated])
  with True show ?thesis by (auto simp add: max_def)
next
  case False
  then show ?thesis by (auto simp add: max_def)
qed

lemma normal_ok:
  "np_random_normal gauss cap (h, w) g = (Inr a, g') \<longleftrightarrow>
   shape_fits cap h w \<and> a = sample_grid gauss (rng_seed g) (rng_drawn g) (nat h) (nat w) \<and>
   g' = g\<lparr>rng_drawn := rng_drawn g + nat h * nat w\<rparr>"
proof (cases "check_dims 8 [h, w]")
  case None
  then have "0 \<le> h \<and> 0 \<le> w \<and> 8 * max 1 h * max 1 w \<le> 2 ^ 63 - 1"
    by (simp only: check_dims_none)
  with None show ?thesis
    by (auto simp add: np_random_normal_def shape_fits_def Let_def)
next
  case (Some e)
  then have "\<not> (0 \<le> h \<and> 0 \<le> w \<and> 8 * max 1 h * max 1 w \<le> 2 ^ 63 - 1)"
    by (simp only: check_dims_none [symmetric]) simp
  with Some show ?thesis
    by (auto simp add: np_random_normal_def shape_fits_def)
qed

lemma normal_fits:
  "shape_fits cap h w \<Longrightarrow>
   np_random_normal gauss cap (h, w) g =
     (Inr (sample_grid gauss (rng_seed g) (rng_drawn g) (nat h) (nat w)),
      g\<lparr>rng_drawn := rng_drawn g + nat h * nat w\<rparr>)"
  by (simp add: normal_ok)

lemma normal_fails:
  "\<not> shape_fits cap h w \<Longrightarrow>
   np_random_normal gauss cap (h, w) g =
     (Inl (case check_dims 8 [h, w] of Some e \<Rightarrow> e | None \<Rightarrow> OutOfMemory), g)"
proof (cases "check_dims 8 [h, w]")
  case None
  assume n: "\<not> shape_fits cap h w"
  from None have "0 \<le> h \<and> 0 \<le> w \<and> 8 * max 1 h * max 1 w \<le> 2 ^ 63 - 1"
    by (simp only: check_dims_none)
  with n have "cap < nat h * nat w" by (simp add: shape_fits_def)
  with None show ?thesis by (simp add: np_random_normal_def)
next
  case (Some e)
  then show ?thesis by (simp add: np_random_normal_def)
qed

lemma draw_fields_fits:
  "shape_fits cap h w \<Longrightarrow>
   draw_fields gauss cap self w h \<lparr>rng_seed = s, rng_drawn = k\<rparr> =
     (Inr \<lparr>luma = smul (sample_grid gauss s k (nat h) (nat w))
                    (intensity (parameters self) * luma_influence (parameters self)),
           red = smul (sample_grid gauss s (k + nat h * nat w) (nat h) (nat w))
                    (color_influence (parameters self) * 1.2 * intensity (parameters self) *
                     (1 - luma_influence (parameters self))),
           green = smul (sample_grid gauss s (k + nat h * nat w + nat h * nat w) (nat h) (nat w))
                    (color_influence (parameters self) * 0.8 * intensity (parameters self) *
                     (1 - luma_influence (parameters self))),
           blue = smul (sample_grid gauss s (k + nat h * nat w + nat h * nat w + nat h * nat w)
                      (nat h) (nat w))
                    (color_influence (parameters self) * 1.4 * intensity (parameters self) *
                     (1 - luma_influence (parameters self))),
           field_size = size_param (parameters self),
           field_roughness = roughness (parameters self),
           field_chroma_bias = chroma_bias (parameters self)\<rparr>,
      \<lparr>rng_seed = s, rng_drawn = k + 4 * (nat h * nat w)\<rparr>)"
  by (simp add: draw_fields_def np_bind_def normal_fits np_return_def Let_def smul_smul
      mult.assoc)

lemma draw_fields_fails:
  "\<not> shape_fits cap h w \<Longrightarrow>
   draw_fields gauss cap self w h g =
     (Inl (case check_dims 8 [h, w] of Some e \<Rightarrow> e | None \<Rightarrow> OutOfMemory), g)"
  by (simp add: draw_fields_def np_bind_def normal_fails)

lemma gp_cases:
  "generate_pattern gauss cap self w h g =
     (case seed self of
        PyFloat x \<Rightarrow> (Inl SeedNotInteger, g)
      | PyInt n \<Rightarrow>
          if 0 \<le> n \<and> n \<le> 2 ^ 32 - 1 then
            if shape_fits cap h w
            then (Inr (scaled_field gauss (parameters self) (nat n) (nat h) (nat w)),
                  \<lparr>rng_seed = nat n, rng_drawn = 4 * (nat h * nat w)\<rparr>)
            else (Inl (case check_dims 8 [h, w] of Some e \<Rightarrow> e | None \<Rightarrow> OutOfMemory),
                  \<lparr>rng_seed = nat n, rng_drawn = 0\<rparr>)
          else (Inl SeedOutOfRange, g))"
  by (simp add: generate_pattern_def np_bind_def np_random_seed_def draw_fields_fits
      draw_fields_fails scaled_field_def split: pynum.split)

lemma generate_cases:
  "generate gauss cap i s w h g =
     (case s of
        PyFloat x \<Rightarrow> (Inl SeedNotInteger, g)
      | PyInt n \<Rightarrow>
          if 0 \<le> n \<and> n \<le> 2 ^ 32 - 1 then
            if shape_fits cap h w
            then (Inr (scaled_field gauss
                         (dict_get GRAIN_PARAMETERS i (params 0.35 0.52 0.72 0.09 0.87 0.08))
                         (nat n) (nat h) (nat w)),
                  \<lparr>rng_seed = nat n, rng_drawn = 4 * (nat h * nat w)\<rparr>)
            else (Inl (case check_dims 8 [h, w] of Some e \<Rightarrow> e | None \<Rightarrow> OutOfMemory),
                  \<lparr>rng_seed = nat n, rng_drawn = 0\<rparr>)
          else (Inl SeedOutOfRange, g))"
  by (simp add: generate_def init_eq gp_cases split: pynum.split)

lemma init_800:
  "init ''800'' s =
     Inr \<lparr>iso = ''800'', seed = s, parameters = params 0.35 0.52 0.72 0.09 0.87 0.08\<rparr>"
  by (simp add: init_eq get_800)

lemma demo_normal_11:
  "np_random_normal demo_gauss 1000000 (1, 1) \<lparr>rng_seed = 1, rng_drawn = k\<rparr> =
     (Inr [[(real k + 2) / 4]], \<lparr>rng_seed = 1, rng_drawn = Suc k\<rparr>)"
  by (simp add: np_random_normal_def sample_grid_def demo_gauss_def)

lemma demo_grid_22:
  "sample_grid demo_gauss (Suc 0) 0 2 2 = [[1 / 2, 3 / 4], [1, 5 / 4]]"
  by (simp add: sample_grid_def demo_gauss_def upt_rec numeral_2_eq_2)

lemma check_dims_some:
  "check_dims n ds = Some e \<Longrightarrow> e = NegativeDimensions \<or> e = ArrayTooBig"
  by (induction n ds rule: check_dims.induct) (auto split: if_splits)

lemma shape_error_kind:
  "(case check_dims 8 [h, w] of Some e \<Rightarrow> e | None \<Rightarrow> OutOfMemory) \<in>
     {NegativeDimensions, ArrayTooBig, OutOfMemory}"
  using check_dims_some [of 8 "[h, w]"] by (cases "check_dims 8 [h, w]") auto

section \<open>Determinism and the process-wide generator\<close>

text \<open>
  Claim C1. Two calls of \<open>generate\<close> with the same iso, seed, width and height return
  the same result, whatever the process-wide generator was before each call; and for an
  accepted seed and dimensions for which the draws succeed that result is a noise field,
  so the two fields agree in their four grids and three scalars.
\<close>

theorem generate_deterministic:
  "fst (generate gauss cap i s w h g) = fst (generate gauss cap i s w h k) \<and>
   ((\<exists>n. s = PyInt n \<and> 0 \<le> n \<and> n \<le> 2 ^ 32 - 1) \<and> shape_fits cap h w \<longrightarrow>
      (\<exists>f. fst (generate gauss cap i s w h g) = Inr f))"
  by (cases s) (auto simp add: generate_cases)

theorem generate_deterministic_witness:
  "(\<exists>n. PyInt 1 = PyInt n \<and> 0 \<le> n \<and> n \<le> 2 ^ 32 - 1) \<and> shape_fits 1000000 2 2 \<and>
   fst (generate demo_gauss 1000000 ''80'' (PyInt 1) 2 2 \<lparr>rng_seed = 0, rng_drawn = 0\<rparr>) =
   fst (generate demo_gauss 1000000 ''80'' (PyInt 1) 2 2 \<lparr>rng_seed = 7, rng_drawn = 12\<rparr>) \<and>
   (\<exists>f. fst (generate demo_gauss 1000000 ''80'' (PyInt 1) 2 2
            \<lparr>rng_seed = 0, rng_drawn = 0\<rparr>) = Inr f)"
proof -
  have v: "(\<exists>n. PyInt 1 = PyInt n \<and> 0 \<le> n \<and> n \<le> 2 ^ 32 - 1) \<and> shape_fits 1000000 2 2"
    by (simp add: shape_fits_def)
  note t = generate_deterministic [of demo_gauss 1000000 "''80''" "PyInt 1" 2 2
      "\<lparr>rng_seed = 0, rng_drawn = 0\<rparr>" "\<lparr>rng_seed = 7, rng_drawn = 12\<rparr>"]
  from v t show ?thesis by blast
qed

text \<open>
  Claim C8, as amended. The result of a call of \<open>generate\<close> that runs from its first
  line to its last with no other call in between does not depend on the process-wide
  generator it finds, but the call overwrites that generator: after a call with an
  accepted seed and dimensions for which the draws succeed, the process-wide generator
  is the one started by the call's seed, advanced by the \<open>4 * height * width\<close> samples
  of the four draws.
\<close>

theorem global_state_overwritten:
  "0 \<le> n \<Longrightarrow> n \<le> 2 ^ 32 - 1 \<Longrightarrow> shape_fits cap h w \<Longrightarrow>
   fst (generate gauss cap i (PyInt n) w h g) = fst (generate gauss cap i (PyInt n) w h k) \<and>
   snd (generate gauss cap i (PyInt n) w h g) =
     \<lparr>rng_seed = nat n, rng_drawn = 4 * (nat h * nat w)\<rparr>"
  by (simp add: generate_cases)

theorem global_state_overwritten_witness:
  "(0::int) \<le> 1 \<and> (1::int) \<le> 2 ^ 32 - 1 \<and> shape_fits 1000000 3 2 \<and>
   fst (generate demo_gauss 1000000 ''800'' (PyInt 1) 2 3 \<lparr>rng_seed = 5, rng_drawn = 0\<rparr>) =
   fst (generate demo_gauss 1000000 ''800'' (PyInt 1) 2 3 \<lparr>rng_seed = 1, rng_drawn = 24\<rparr>) \<and>
   snd (generate demo_gauss 1000000 ''800'' (PyInt 1) 2 3 \<lparr>rng_seed = 5, rng_drawn = 0\<rparr>) =
     \<lparr>rng_seed = 1, rng_drawn = 24\<rparr>"
proof -
  have v: "(0::int) \<le> 1" "(1::int) \<le> 2 ^ 32 - 1" "shape_fits 1000000 3 2"
    by (simp_all add: shape_fits_def)
  from global_state_overwritten [OF v, of demo_gauss "''800''"
      "\<lparr>rng_seed = 5, rng_drawn = 0\<rparr>" "\<lparr>rng_seed = 1, rng_drawn = 24\<rparr>"] v
  show ?thesis by simp
qed

text \<open>
  Claim C8 as stated fails, in both of its parts. A process whose generator was seeded
  with 5 finds it, after one call of \<open>generate\<close> with seed 1 on a 1 by 1 grid, seeded
  with 1 and four samples further. And the output of a call depends on the order of the
  calls around it: the call for \<^verbatim>\<open>"800"\<close> with seed 1 returns the luma grid
  \<open>[[0.15225]]\<close> when it runs alone, and \<open>[[0.76125]]\<close> when a call with seed 5 runs
  between its line 107 and its line 112, because it then draws from the stream of
  seed 5: the two calls leave the generator seeded with 5 and eight samples further.
\<close>

theorem global_state_counterexample:
  "snd (generate demo_gauss 1000000 ''800'' (PyInt 1) 1 1 \<lparr>rng_seed = 5, rng_drawn = 0\<rparr>) =
     \<lparr>rng_seed = 1, rng_drawn = 4\<rparr> \<and>
   \<lparr>rng_seed = 1, rng_drawn = 4\<rparr> \<noteq> \<lparr>rng_seed = 5, rng_drawn = 0\<rparr> \<and>
   init ''800'' (PyInt 1) =
     Inr \<lparr>iso = ''800'', seed = PyInt 1,
          parameters = params 0.35 0.52 0.72 0.09 0.87 0.08\<rparr> \<and>
   init ''800'' (PyInt 5) =
     Inr \<lparr>iso = ''800'', seed = PyInt 5,
          parameters = params 0.35 0.52 0.72 0.09 0.87 0.08\<rparr> \<and>
   map_sum id luma
     (fst (generate_pattern demo_gauss 1000000
        \<lparr>iso = ''800'', seed = PyInt 1, parameters = params 0.35 0.52 0.72 0.09 0.87 0.08\<rparr>
        1 1 \<lparr>rng_seed = 5, rng_drawn = 0\<rparr>)) = Inr [[0.15225]] \<and>
   map_sum id (luma \<circ> fst)
     (fst (overlapped demo_gauss 1000000
        \<lparr>iso = ''800'', seed = PyInt 1, parameters = params 0.35 0.52 0.72 0.09 0.87 0.08\<rparr>
        1 1
        \<lparr>iso = ''800'', seed = PyInt 5, parameters = params 0.35 0.52 0.72 0.09 0.87 0.08\<rparr>
        1 1 \<lparr>rng_seed = 5, rng_drawn = 0\<rparr>)) = Inr [[0.76125]] \<and>
   [[0.15225 :: real]] \<noteq> [[0.76125]] \<and>
   snd (overlapped demo_gauss 1000000
        \<lparr>iso = ''800'', seed = PyInt 1, parameters = params 0.35 0.52 0.72 0.09 0.87 0.08\<rparr>
        1 1
        \<lparr>iso = ''800'', seed = PyInt 5, parameters = params 0.35 0.52 0.72 0.09 0.87 0.08\<rparr>
        1 1 \<lparr>rng_seed = 5, rng_drawn = 0\<rparr>) = \<lparr>rng_seed = 5, rng_drawn = 8\<rparr>"
proof -
  have f: "shape_fits 1000000 1 1" by (simp add: shape_fits_def)
  have a: "snd (generate demo_gauss 1000000 ''800'' (PyInt 1) 1 1
      \<lparr>rng_seed = 5, rng_drawn = 0\<rparr>) = \<lparr>rng_seed = 1, rng_drawn = 4\<rparr>"
    by (simp add: generate_cases f)
  have b: "map_sum id luma
     (fst (generate_pattern demo_gauss 1000000
        \<lparr>iso = ''800'', seed = PyInt 1, parameters = params 0.35 0.52 0.72 0.09 0.87 0.08\<rparr>
        1 1 \<lparr>rng_seed = 5, rng_drawn = 0\<rparr>)) = Inr [[0.15225]]"
    by (simp add: gp_cases f scaled_field_def params_def sample_grid_def smul_def
        demo_gauss_def)
  have c: "map_sum id (luma \<circ> fst)
     (fst (overlapped demo_gauss 1000000
        \<lparr>iso = ''800'', seed = PyInt 1, parameters = params 0.35 0.52 0.72 0.09 0.87 0.08\<rparr>
        1 1
        \<lparr>iso = ''800'', seed = PyInt 5, parameters = params 0.35 0.52 0.72 0.09 0.87 0.08\<rparr>
        1 1 \<lparr>rng_seed = 5, rng_drawn = 0\<rparr>)) = Inr [[0.76125]]"
    by (simp add: overlapped_def np_bind_def np_random_seed_def gp_cases f
        draw_fields_fits np_return_def params_def sample_grid_def smul_def demo_gauss_def)
  have d: "snd (overlapped demo_gauss 1000000
        \<lparr>iso = ''800'', seed = PyInt 1, parameters = params 0.35 0.52 0.72 0.09 0.87 0.08\<rparr>
        1 1
        \<lparr>iso = ''800'', seed = PyInt 5, parameters = params 0.35 0.52 0.72 0.09 0.87 0.08\<rparr>
        1 1 \<lparr>rng_seed = 5, rng_drawn = 0\<rparr>) = \<lparr>rng_seed = 5, rng_drawn = 8\<rparr>"
    by (simp add: overlapped_def np_bind_def np_random_seed_def gp_cases f
        draw_fields_fits np_return_def)
  from a b c d show ?thesis by (simp add: init_800 init_eq get_800)
qed

section \<open>Seeds and dimensions\<close>

text \<open>
  Claim C7, as amended. For an integer seed, a call of \<open>generate\<close> does not fail on the
  seed exactly when the seed lies between 0 and \<open>2\<^sup>3\<^sup>2 - 1\<close>. Such a seed starts the
  generator as it is, without normalization; every other integer seed makes the call
  fail as out of range, before anything is drawn and with the process-wide generator
  untouched.
\<close>

theorem integer_seed_range:
  "(0 \<le> n \<and> n \<le> 2 ^ 32 - 1 \<longrightarrow>
      fst (generate gauss cap i (PyInt n) w h g) \<noteq> Inl SeedOutOfRange \<and>
      fst (generate gauss cap i (PyInt n) w h g) \<noteq> Inl SeedNotInteger \<and>
      rng_seed (snd (generate gauss cap i (PyInt n) w h g)) = nat n) \<and>
   (\<not> (0 \<le> n \<and> n \<le> 2 ^ 32 - 1) \<longrightarrow>
      generate gauss cap i (PyInt n) w h g = (Inl SeedOutOfRange, g))"
  using shape_error_kind [of h w] by (auto simp add: generate_cases)

theorem integer_seed_range_witness:
  "fst (generate demo_gauss 1000000 ''800'' (PyInt 4294967295) 1 1
      \<lparr>rng_seed = 5, rng_drawn = 0\<rparr>) \<noteq> Inl SeedOutOfRange \<and>
   rng_seed (snd (generate demo_gauss 1000000 ''800'' (PyInt 4294967295) 1 1
      \<lparr>rng_seed = 5, rng_drawn = 0\<rparr>)) = 4294967295 \<and>
   generate demo_gauss 1000000 ''800'' (PyInt 4294967296) 1 1 \<lparr>rng_seed = 5, rng_drawn = 0\<rparr> =
     (Inl SeedOutOfRange, \<lparr>rng_seed = 5, rng_drawn = 0\<rparr>)"
  using integer_seed_range [of 4294967295 demo_gauss 1000000 "''800''" 1 1
      "\<lparr>rng_seed = 5, rng_drawn = 0\<rparr>"]
    integer_seed_range [of 4294967296 demo_gauss 1000000 "''800''" 1 1
      "\<lparr>rng_seed = 5, rng_drawn = 0\<rparr>"]
  by simp

text \<open>
  Claim C7 as stated fails: the integer seeds \<open>2\<^sup>3\<^sup>2\<close> and \<open>-1\<close> are representable
  integers, and each makes the call fail instead of being normalized.
\<close>

theorem seed_not_normalized_counterexample:
  "generate demo_gauss 1000000 ''800'' (PyInt 4294967296) 1 1 \<lparr>rng_seed = 5, rng_drawn = 0\<rparr> =
     (Inl SeedOutOfRange, \<lparr>rng_seed = 5, rng_drawn = 0\<rparr>) \<and>
   generate demo_gauss 1000000 ''800'' (PyInt (- 1)) 1 1 \<lparr>rng_seed = 5, rng_drawn = 0\<rparr> =
     (Inl SeedOutOfRange, \<lparr>rng_seed = 5, rng_drawn = 0\<rparr>)"
  by (simp add: generate_cases)

lemma sample_grid_shape: "map length (sample_grid gauss s k h w) = replicate h w"
  by (simp add: sample_grid_def map_replicate_const comp_def)

lemma smul_shape: "map length (smul a c) = map length a"
  by (simp add: smul_def comp_def)

lemma concat_empty_rows:
  assumes "map length a = replicate h w" and "h = 0 \<or> w = 0"
  shows "concat a = []"
proof (cases "h = 0")
  case True
  with assms(1) show ?thesis by simp
next
  case False
  with assms(2) have "w = 0" by simp
  with assms(1) have "set (map length a) \<subseteq> {0}" by (simp add: set_replicate_conv_if)
  then show ?thesis by auto
qed

lemma zero_shape_fits:
  "w = 0 \<and> 0 \<le> h \<and> 8 * h \<le> 2 ^ 63 - 1 \<or> h = 0 \<and> 0 \<le> w \<and> 8 * w \<le> 2 ^ 63 - 1 \<Longrightarrow>
   shape_fits cap h w"
  by (auto simp add: shape_fits_def max_def)

lemma negative_shape_error:
  "h < 0 \<or> w < 0 \<and> 8 * h \<le> 2 ^ 63 - 1 \<Longrightarrow> check_dims 8 [h, w] = Some NegativeDimensions"
  by auto

lemma negative_shape_unfit: "w < 0 \<or> h < 0 \<Longrightarrow> \<not> shape_fits cap h w"
  by (auto simp add: shape_fits_def)

text \<open>
  Claim C6, as amended. With an integer seed from 0 to \<open>2\<^sup>3\<^sup>2 - 1\<close>: a call whose width
  or height is zero, the other dimension not negative and of at most \<open>2\<^sup>6\<^sup>3 - 1\<close> bytes
  (8 bytes times the dimension), returns a field whose four grids hold no value and
  have the requested shape (\<open>height\<close> rows of \<open>width\<close> values); a call with a negative
  height, or with a negative width and a height of at most \<open>2\<^sup>6\<^sup>3 - 1\<close> bytes, fails with
  the error for negative dimensions; and no call with a negative width or height
  returns a field.
\<close>

theorem degenerate_dimensions:
  "0 \<le> s \<Longrightarrow> s \<le> 2 ^ 32 - 1 \<Longrightarrow>
   ((w = 0 \<and> 0 \<le> h \<and> 8 * h \<le> 2 ^ 63 - 1 \<or> h = 0 \<and> 0 \<le> w \<and> 8 * w \<le> 2 ^ 63 - 1) \<longrightarrow>
      (\<exists>f g'. generate gauss cap i (PyInt s) w h g = (Inr f, g') \<and>
         concat (luma f) = [] \<and> concat (red f) = [] \<and>
         concat (green f) = [] \<and> concat (blue f) = [] \<and>
         map length (luma f) = replicate (nat h) (nat w) \<and>
         map length (red f) = replicate (nat h) (nat w) \<and>
         map length (green f) = replicate (nat h) (nat w) \<and>
         map length (blue f) = replicate (nat h) (nat w))) \<and>
   (h < 0 \<or> w < 0 \<and> 8 * h \<le> 2 ^ 63 - 1 \<longrightarrow>
      (\<exists>g'. generate gauss cap i (PyInt s) w h g = (Inl NegativeDimensions, g'))) \<and>
   (w < 0 \<or> h < 0 \<longrightarrow>
      (\<exists>e g'. generate gauss cap i (PyInt s) w h g = (Inl e, g')))"
proof (intro conjI impI)
  assume s: "0 \<le> s" "s \<le> 2 ^ 32 - 1"
    and z: "w = 0 \<and> 0 \<le> h \<and> 8 * h \<le> 2 ^ 63 - 1 \<or> h = 0 \<and> 0 \<le> w \<and> 8 * w \<le> 2 ^ 63 - 1"
  let ?p = "dict_get GRAIN_PARAMETERS i (params 0.35 0.52 0.72 0.09 0.87 0.08)"
  let ?f = "scaled_field gauss ?p (nat s) (nat h) (nat w)"
  from z have d: "shape_fits cap h w" by (rule zero_shape_fits)
  from z have e: "nat h = 0 \<or> nat w = 0" by auto
  from s d have g: "generate gauss cap i (PyInt s) w h g =
     (Inr ?f, \<lparr>rng_seed = nat s, rng_drawn = 4 * (nat h * nat w)\<rparr>)"
    by (simp add: generate_cases)
  have sh: "map length (luma ?f) = replicate (nat h) (nat w)"
    "map length (red ?f) = replicate (nat h) (nat w)"
    "map length (green ?f) = replicate (nat h) (nat w)"
    "map length (blue ?f) = replicate (nat h) (nat w)"
    by (simp_all add: scaled_field_def smul_shape sample_grid_shape)
  from sh e have "concat (luma ?f) = []" "concat (red ?f) = []"
    "concat (green ?f) = []" "concat (blue ?f) = []"
    by (blast intro: concat_empty_rows)+
  with g sh show "\<exists>f g'. generate gauss cap i (PyInt s) w h g = (Inr f, g') \<and>
         concat (luma f) = [] \<and> concat (red f) = [] \<and>
         concat (green f) = [] \<and> concat (blue f) = [] \<and>
         map length (luma f) = replicate (nat h) (nat w) \<and>
         map length (red f) = replicate (nat h) (nat w) \<and>
         map length (green f) = replicate (nat h) (nat w) \<and>
         map length (blue f) = replicate (nat h) (nat w)"
    by simp
next
  assume s: "0 \<le> s" "s \<le> 2 ^ 32 - 1" and n: "h < 0 \<or> w < 0 \<and> 8 * h \<le> 2 ^ 63 - 1"
  from n have "w < 0 \<or> h < 0" by blast
  then have u: "\<not> shape_fits cap h w" by (rule negative_shape_unfit)
  from n have "check_dims 8 [h, w] = Some NegativeDimensions" by (rule negative_shape_error)
  with s u show "\<exists>g'. generate gauss cap i (PyInt s) w h g = (Inl NegativeDimensions, g')"
    by (simp add: generate_cases)
next
  assume s: "0 \<le> s" "s \<le> 2 ^ 32 - 1" and n: "w < 0 \<or> h < 0"
  from n have "\<not> shape_fits cap h w" by (rule negative_shape_unfit)
  with s show "\<exists>e g'. generate gauss cap i (PyInt s) w h g = (Inl e, g')"
    by (simp add: generate_cases)
qed

theorem degenerate_dimensions_witness:
  "(0::int) \<le> 1 \<and> (1::int) \<le> 2 ^ 32 - 1 \<and>
   (\<exists>f g'. generate demo_gauss 1000000 ''800'' (PyInt 1) 0 3 \<lparr>rng_seed = 5, rng_drawn = 0\<rparr> =
        (Inr f, g') \<and>
      luma f = [[], [], []] \<and> red f = [[], [], []] \<and>
      green f = [[], [], []] \<and> blue f = [[], [], []]) \<and>
   (\<exists>f g'. generate demo_gauss 1000000 ''800'' (PyInt 1) 4 0 \<lparr>rng_seed = 5, rng_drawn = 0\<rparr> =
        (Inr f, g') \<and>
      luma f = [] \<and> red f = [] \<and> green f = [] \<and> blue f = []) \<and>
   (\<exists>g'. generate demo_gauss 1000000 ''800'' (PyInt 1) (- 1) 3 \<lparr>rng_seed = 5, rng_drawn = 0\<rparr> =
      (Inl NegativeDimensions, g'))"
proof -
  have v: "(0::int) \<le> 1" "(1::int) \<le> 2 ^ 32 - 1" by simp_all
  note a = degenerate_dimensions [OF v, of 0 3 demo_gauss 1000000 "''800''"
      "\<lparr>rng_seed = 5, rng_drawn = 0\<rparr>"]
  note b = degenerate_dimensions [OF v, of 4 0 demo_gauss 1000000 "''800''"
      "\<lparr>rng_seed = 5, rng_drawn = 0\<rparr>"]
  note c = degenerate_dimensions [OF v, of "- 1" 3 demo_gauss 1000000 "''800''"
      "\<lparr>rng_seed = 5, rng_drawn = 0\<rparr>"]
  have r: "map length a = replicate 3 0 \<longleftrightarrow> a = [[], [], []]" for a :: "real list list"
    by (auto simp add: numeral_3_eq_3 map_eq_Cons_conv)
  from a have "\<exists>f g'. generate demo_gauss 1000000 ''800'' (PyInt 1) 0 3
        \<lparr>rng_seed = 5, rng_drawn = 0\<rparr> = (Inr f, g') \<and>
      luma f = [[], [], []] \<and> red f = [[], [], []] \<and>
      green f = [[], [], []] \<and> blue f = [[], [], []]"
    by (auto simp add: r)
  moreover from b have "\<exists>f g'. generate demo_gauss 1000000 ''800'' (PyInt 1) 4 0
        \<lparr>rng_seed = 5, rng_drawn = 0\<rparr> = (Inr f, g') \<and>
      luma f = [] \<and> red f = [] \<and> green f = [] \<and> blue f = []"
    by auto
  moreover from c have "\<exists>g'. generate demo_gauss 1000000 ''800'' (PyInt 1) (- 1) 3
        \<lparr>rng_seed = 5, rng_drawn = 0\<rparr> = (Inl NegativeDimensions, g')"
    by simp
  ultimately show ?thesis using v by blast
qed

text \<open>
  Claim C6 as stated fails. With the seed \<open>-1\<close> a call of width zero returns no field,
  and a call of negative width fails on the seed, not on the dimension; with the float
  seed 1.0 a call of width zero returns no field either; and with seed 1, width zero
  and height \<open>2\<^sup>6\<^sup>2\<close> the call fails because the array is too big.
\<close>

theorem degenerate_dimensions_counterexample:
  "generate demo_gauss 1000000 ''800'' (PyInt (- 1)) 0 3 \<lparr>rng_seed = 5, rng_drawn = 0\<rparr> =
     (Inl SeedOutOfRange, \<lparr>rng_seed = 5, rng_drawn = 0\<rparr>) \<and>
   generate demo_gauss 1000000 ''800'' (PyInt (- 1)) (- 1) 3 \<lparr>rng_seed = 5, rng_drawn = 0\<rparr> =
     (Inl SeedOutOfRange, \<lparr>rng_seed = 5, rng_drawn = 0\<rparr>) \<and>
   generate demo_gauss 1000000 ''800'' (PyFloat 1) 0 3 \<lparr>rng_seed = 5, rng_drawn = 0\<rparr> =
     (Inl SeedNotInteger, \<lparr>rng_seed = 5, rng_drawn = 0\<rparr>) \<and>
   generate demo_gauss 1000000 ''800'' (PyInt 1) 0 4611686018427387904
       \<lparr>rng_seed = 5, rng_drawn = 0\<rparr> =
     (Inl ArrayTooBig, \<lparr>rng_seed = 1, rng_drawn = 0\<rparr>)"
  by (simp add: generate_cases shape_fits_def)

section \<open>Scaling of the draws\<close>

text \<open>
  Claim C3. When the constructor resolves the parameters, the seed is accepted and the
  luminance draw returns the grid \<open>luma_raw\<close>, the call returns a field whose luma grid
  is \<open>luma_raw\<close> times \<open>intensity * luma_influence\<close> of the resolved parameters, and whose
  size, roughness and chroma bias are those of the resolved parameters.
\<close>

theorem luma_and_scalars:
  assumes "init i s = Inr self"
    and "np_random_seed s g = (Inr (), g0)"
    and "np_random_normal gauss cap (h, w) g0 = (Inr luma_raw, g1)"
  shows "\<exists>f g'. generate gauss cap i s w h g = (Inr f, g') \<and>
     luma f = smul luma_raw (intensity (parameters self) * luma_influence (parameters self)) \<and>
     field_size f = size_param (parameters self) \<and>
     field_roughness f = roughness (parameters self) \<and>
     field_chroma_bias f = chroma_bias (parameters self)"
proof -
  from assms(2) obtain n where n: "s = PyInt n" "0 \<le> n \<and> n \<le> 2 ^ 32 - 1"
    and g0: "g0 = \<lparr>rng_seed = nat n, rng_drawn = 0\<rparr>"
    by (auto simp add: seed_ok)
  from assms(3) g0 have d: "shape_fits cap h w"
    and raw: "luma_raw = sample_grid gauss (nat n) 0 (nat h) (nat w)"
    by (auto simp add: normal_ok)
  from assms(1) have p: "parameters self =
      dict_get GRAIN_PARAMETERS i (params 0.35 0.52 0.72 0.09 0.87 0.08)"
    by (auto simp add: init_eq)
  from n d raw p show ?thesis
    by (simp add: generate_cases scaled_field_def)
qed

theorem luma_and_scalars_witness:
  "init ''3200'' (PyInt 1) =
     Inr \<lparr>iso = ''3200'', seed = PyInt 1,
          parameters = params 0.65 0.64 0.80 0.16 0.78 0.15\<rparr> \<and>
   np_random_seed (PyInt 1) \<lparr>rng_seed = 9, rng_drawn = 9\<rparr> =
     (Inr (), \<lparr>rng_seed = 1, rng_drawn = 0\<rparr>) \<and>
   np_random_normal demo_gauss 1000000 (1, 2) \<lparr>rng_seed = 1, rng_drawn = 0\<rparr> =
     (Inr [[1 / 2, 3 / 4]], \<lparr>rng_seed = 1, rng_drawn = 2\<rparr>) \<and>
   (\<exists>f g'. generate demo_gauss 1000000 ''3200'' (PyInt 1) 2 1 \<lparr>rng_seed = 9, rng_drawn = 9\<rparr> =
        (Inr f, g') \<and>
      luma f = smul [[1 / 2, 3 / 4]] (0.65 * 0.78) \<and>
      field_size f = 0.64 \<and> field_roughness f = 0.80 \<and> field_chroma_bias f = 0.15)"
proof -
  have a: "init ''3200'' (PyInt 1) =
     Inr \<lparr>iso = ''3200'', seed = PyInt 1,
          parameters = params 0.65 0.64 0.80 0.16 0.78 0.15\<rparr>"
    by (simp add: init_eq get_3200)
  have b: "np_random_seed (PyInt 1) \<lparr>rng_seed = 9, rng_drawn = 9\<rparr> =
     (Inr (), \<lparr>rng_seed = 1, rng_drawn = 0\<rparr>)"
    by (simp add: np_random_seed_def)
  have c: "np_random_normal demo_gauss 1000000 (1, 2) \<lparr>rng_seed = 1, rng_drawn = 0\<rparr> =
     (Inr [[1 / 2, 3 / 4]], \<lparr>rng_seed = 1, rng_drawn = 2\<rparr>)"
    by (simp add: np_random_normal_def sample_grid_def demo_gauss_def upt_rec numeral_2_eq_2)
  from luma_and_scalars [OF a b c] a b c show ?thesis
    by (simp add: params_def)
qed

text \<open>
  Claim C2, as amended. When the constructor resolves the parameters, the seed is
  accepted and the four draws return, in this order, the grids \<open>luma_raw\<close>, \<open>r_raw\<close>,
  \<open>g_raw\<close> and \<open>b_raw\<close>, the call returns a field whose red, green and blue grids are the
  raw red, green and blue draws times the four factors \<open>color_influence\<close>, the channel
  weight (1.2 for red, 0.8 for green, 1.4 for blue), \<open>intensity\<close> and
  \<open>1 - luma_influence\<close> of the resolved parameters.
\<close>

theorem colour_channels:
  assumes "init i s = Inr self"
    and "np_random_seed s g = (Inr (), g0)"
    and "np_random_normal gauss cap (h, w) g0 = (Inr luma_raw, g1)"
    and "np_random_normal gauss cap (h, w) g1 = (Inr r_raw, g2)"
    and "np_random_normal gauss cap (h, w) g2 = (Inr g_raw, g3)"
    and "np_random_normal gauss cap (h, w) g3 = (Inr b_raw, g4)"
  shows "\<exists>f g'. generate gauss cap i s w h g = (Inr f, g') \<and>
     red f = smul r_raw (color_influence (parameters self) * 1.2 *
               intensity (parameters self) * (1 - luma_influence (parameters self))) \<and>
     green f = smul g_raw (color_influence (parameters self) * 0.8 *
               intensity (parameters self) * (1 - luma_influence (parameters self))) \<and>
     blue f = smul b_raw (color_influence (parameters self) * 1.4 *
               intensity (parameters self) * (1 - luma_influence (parameters self)))"
proof -
  from assms(2) obtain n where n: "s = PyInt n" "0 \<le> n \<and> n \<le> 2 ^ 32 - 1"
    and g0: "g0 = \<lparr>rng_seed = nat n, rng_drawn = 0\<rparr>"
    by (auto simp add: seed_ok)
  from assms(3) g0 have d: "shape_fits cap h w"
    and g1: "g1 = \<lparr>rng_seed = nat n, rng_drawn = nat h * nat w\<rparr>"
    by (auto simp add: normal_ok)
  from assms(4) g1
  have r: "r_raw = sample_grid gauss (nat n) (nat h * nat w) (nat h) (nat w)"
    and g2: "g2 = \<lparr>rng_seed = nat n, rng_drawn = nat h * nat w + nat h * nat w\<rparr>"
    by (simp_all add: normal_ok)
  from assms(5) g2
  have gr: "g_raw = sample_grid gauss (nat n) (nat h * nat w + nat h * nat w) (nat h) (nat w)"
    and g3: "g3 = \<lparr>rng_seed = nat n,
        rng_drawn = nat h * nat w + nat h * nat w + nat h * nat w\<rparr>"
    by (simp_all add: normal_ok)
  from assms(6) g3
  have b: "b_raw = sample_grid gauss (nat n)
        (nat h * nat w + nat h * nat w + nat h * nat w) (nat h) (nat w)"
    by (simp_all add: normal_ok)
  from assms(1) have p: "parameters self =
      dict_get GRAIN_PARAMETERS i (params 0.35 0.52 0.72 0.09 0.87 0.08)"
    by (auto simp add: init_eq)
  from n d r gr b p show ?thesis
    by (simp add: generate_cases scaled_field_def)
qed

theorem colour_channels_witness:
  "init ''800'' (PyInt 1) =
     Inr \<lparr>iso = ''800'', seed = PyInt 1,
          parameters = params 0.35 0.52 0.72 0.09 0.87 0.08\<rparr> \<and>
   np_random_seed (PyInt 1) \<lparr>rng_seed = 5, rng_drawn = 0\<rparr> =
     (Inr (), \<lparr>rng_seed = 1, rng_drawn = 0\<rparr>) \<and>
   np_random_normal demo_gauss 1000000 (1, 1) \<lparr>rng_seed = 1, rng_drawn = 0\<rparr> =
     (Inr [[1 / 2]], \<lparr>rng_seed = 1, rng_drawn = 1\<rparr>) \<and>
   np_random_normal demo_gauss 1000000 (1, 1) \<lparr>rng_seed = 1, rng_drawn = 1\<rparr> =
     (Inr [[3 / 4]], \<lparr>rng_seed = 1, rng_drawn = 2\<rparr>) \<and>
   np_random_normal demo_gauss 1000000 (1, 1) \<lparr>rng_seed = 1, rng_drawn = 2\<rparr> =
     (Inr [[1]], \<lparr>rng_seed = 1, rng_drawn = 3\<rparr>) \<and>
   np_random_normal demo_gauss 1000000 (1, 1) \<lparr>rng_seed = 1, rng_drawn = 3\<rparr> =
     (Inr [[5 / 4]], \<lparr>rng_seed = 1, rng_drawn = 4\<rparr>) \<and>
   (\<exists>f g'. generate demo_gauss 1000000 ''800'' (PyInt 1) 1 1 \<lparr>rng_seed = 5, rng_drawn = 0\<rparr> =
          (Inr f, g') \<and>
        red f = smul [[3 / 4]] (0.09 * 1.2 * 0.35 * (1 - 0.87)) \<and>
        green f = smul [[1]] (0.09 * 0.8 * 0.35 * (1 - 0.87)) \<and>
        blue f = smul [[5 / 4]] (0.09 * 1.4 * 0.35 * (1 - 0.87)))"
proof -
  have a: "init ''800'' (PyInt 1) =
     Inr \<lparr>iso = ''800'', seed = PyInt 1,
          parameters = params 0.35 0.52 0.72 0.09 0.87 0.08\<rparr>"
    by (rule init_800)
  have b: "np_random_seed (PyInt 1) \<lparr>rng_seed = 5, rng_drawn = 0\<rparr> =
     (Inr (), \<lparr>rng_seed = 1, rng_drawn = 0\<rparr>)"
    by (simp add: np_random_seed_def)
  have c0: "np_random_normal demo_gauss 1000000 (1, 1) \<lparr>rng_seed = 1, rng_drawn = 0\<rparr> =
     (Inr [[1 / 2]], \<lparr>rng_seed = 1, rng_drawn = 1\<rparr>)"
    using demo_normal_11 [of 0] by simp
  have c1: "np_random_normal demo_gauss 1000000 (1, 1) \<lparr>rng_seed = 1, rng_drawn = 1\<rparr> =
     (Inr [[3 / 4]], \<lparr>rng_seed = 1, rng_drawn = 2\<rparr>)"
    using demo_normal_11 [of 1] by simp
  have c2: "np_random_normal demo_gauss 1000000 (1, 1) \<lparr>rng_seed = 1, rng_drawn = 2\<rparr> =
     (Inr [[1]], \<lparr>rng_seed = 1, rng_drawn = 3\<rparr>)"
    using demo_normal_11 [of 2] by simp
  have c3: "np_random_normal demo_gauss 1000000 (1, 1) \<lparr>rng_seed = 1, rng_drawn = 3\<rparr> =
     (Inr [[5 / 4]], \<lparr>rng_seed = 1, rng_drawn = 4\<rparr>)"
    using demo_normal_11 [of 3] by simp
  from colour_channels [OF a b c0 c1 c2 c3] a b c0 c1 c2 c3 show ?thesis
    by (simp add: params_def)
qed

lemma colour_influence_factor:
  "x \<noteq> 0 \<Longrightarrow>
   smul [[x]] (0.09 * 1.2 * 0.35 * (1 - 0.87)) \<noteq> smul [[x]] (1.2 * 0.35 * (1 - 0.87))"
  by (simp add: smul_def)

text \<open>
  Claim C2 as stated fails. For iso \<^verbatim>\<open>"800"\<close> and a raw red draw of 0.75 the red grid holds
  \<open>0.75 * 0.09 * 1.2 * 0.35 * 0.13 = 0.0036855\<close>, not the product
  \<open>0.75 * 1.2 * 0.35 * 0.13\<close> of the draw with the three factors of the claim.
\<close>

theorem colour_channels_counterexample:
  "generate demo_gauss 1000000 ''800'' (PyInt 1) 1 1 \<lparr>rng_seed = 5, rng_drawn = 0\<rparr> =
     (Inr \<lparr>luma = [[0.15225]], red = [[0.0036855]], green = [[0.003276]],
           blue = [[0.00716625]], field_size = 0.52, field_roughness = 0.72,
           field_chroma_bias = 0.08\<rparr>,
      \<lparr>rng_seed = 1, rng_drawn = 4\<rparr>) \<and>
   np_random_normal demo_gauss 1000000 (1, 1) \<lparr>rng_seed = 1, rng_drawn = 1\<rparr> =
     (Inr [[0.75]], \<lparr>rng_seed = 1, rng_drawn = 2\<rparr>) \<and>
   [[0.0036855]] \<noteq> smul [[0.75]] (1.2 * 0.35 * (1 - 0.87))"
proof -
  have g: "generate demo_gauss 1000000 ''800'' (PyInt 1) 1 1 \<lparr>rng_seed = 5, rng_drawn = 0\<rparr> =
     (Inr (scaled_field demo_gauss (params 0.35 0.52 0.72 0.09 0.87 0.08) 1 1 1),
      \<lparr>rng_seed = 1, rng_drawn = 4\<rparr>)"
    by (simp add: generate_cases get_800 shape_fits_def)
  have f: "scaled_field demo_gauss (params 0.35 0.52 0.72 0.09 0.87 0.08) 1 1 1 =
     \<lparr>luma = [[0.15225]], red = [[0.0036855]], green = [[0.003276]],
           blue = [[0.00716625]], field_size = 0.52, field_roughness = 0.72,
           field_chroma_bias = 0.08\<rparr>"
    by (simp add: scaled_field_def params_def sample_grid_def smul_def demo_gauss_def)
  have r: "np_random_normal demo_gauss 1000000 (1, 1) \<lparr>rng_seed = 1, rng_drawn = 1\<rparr> =
     (Inr [[0.75]], \<lparr>rng_seed = 1, rng_drawn = 2\<rparr>)"
    using demo_normal_11 [of 1] by simp
  have n: "[[0.0036855]] \<noteq> smul [[0.75]] (1.2 * 0.35 * (1 - 0.87))"
    by (simp add: smul_def)
  from g f r n show ?thesis by simp
qed

section \<open>Luminance across ISO settings\<close>

lemma concat_smul: "concat (smul a c) = map (\<lambda>x. x * c) (concat a)"
  by (simp add: smul_def map_concat)

lemma sum_abs_scaled:
  "sum_list (map (\<lambda>x. \<bar>x * c\<bar>) xs) = \<bar>c\<bar> * sum_list (map abs (xs :: real list))"
  by (induction xs) (simp_all add: abs_mult distrib_left mult.commute)

lemma mean_abs_smul: "mean_abs (smul a c) = \<bar>c\<bar> * mean_abs a"
proof -
  have "sum_list (map abs (concat (smul a c))) = \<bar>c\<bar> * sum_list (map abs (concat a))"
    by (simp add: concat_smul comp_def sum_abs_scaled)
  moreover have "length (concat (smul a c)) = length (concat a)"
    by (simp add: concat_smul)
  ultimately show ?thesis by (simp add: mean_abs_def)
qed

lemma sum_abs_nonneg: "0 \<le> sum_list (map abs (xs :: real list))"
  by (induction xs) simp_all

lemma sum_abs_pos: "\<exists>x\<in>set xs. x \<noteq> 0 \<Longrightarrow> 0 < sum_list (map abs (xs :: real list))"
proof (induction xs)
  case Nil
  then show ?case by simp
next
  case (Cons y ys)
  have "0 \<le> sum_list (map abs ys)" by (rule sum_abs_nonneg)
  with Cons show ?case by (cases "y = 0") (auto simp add: add_pos_nonneg)
qed

lemma mean_abs_nonneg: "0 \<le> mean_abs a"
  by (simp add: mean_abs_def sum_abs_nonneg)

lemma mean_abs_pos: "\<exists>x\<in>set (concat a). x \<noteq> 0 \<Longrightarrow> 0 < mean_abs a"
proof -
  assume h: "\<exists>x\<in>set (concat a). x \<noteq> 0"
  then obtain x where "x \<in> set (concat a)" by blast
  then have "0 < length (concat a)" by (rule length_pos_if_in_set)
  then have "0 < real (length (concat a))" by simp
  with sum_abs_pos [OF h] show ?thesis by (simp add: mean_abs_def)
qed

lemma smul_nonzero:
  "\<exists>x\<in>set (concat (smul a c)). x \<noteq> 0 \<Longrightarrow> \<exists>x\<in>set (concat a). x \<noteq> 0"
  by (auto simp add: concat_smul)

text \<open>
  Claim C9. For an accepted seed and positive dimensions for which the draws succeed,
  the calls for ISO \<^verbatim>\<open>"80"\<close>, \<^verbatim>\<open>"3200"\<close> and \<^verbatim>\<open>"102400"\<close> return fields; the mean absolute
  value of the luma grid for \<^verbatim>\<open>"3200"\<close> is at least 5 times that for \<^verbatim>\<open>"80"\<close>, and the one
  for \<^verbatim>\<open>"102400"\<close> is strictly greater than that for \<^verbatim>\<open>"80"\<close> as soon as the luma grid
  holds a value other than zero, that is, as soon as the luminance draw is not zero
  everywhere.
\<close>

theorem mean_abs_luma_ordering:
  assumes "0 \<le> n" "n \<le> 2 ^ 32 - 1" "0 < w" "0 < h" "shape_fits cap h w"
  shows "\<exists>f80 f3200 f102400 ga gb gc.
     generate gauss cap ''80'' (PyInt n) w h g = (Inr f80, ga) \<and>
     generate gauss cap ''3200'' (PyInt n) w h k = (Inr f3200, gb) \<and>
     generate gauss cap ''102400'' (PyInt n) w h l = (Inr f102400, gc) \<and>
     5 * mean_abs (luma f80) \<le> mean_abs (luma f3200) \<and>
     mean_abs (luma f80) \<le> mean_abs (luma f102400) \<and>
     ((\<exists>x\<in>set (concat (luma f80)). x \<noteq> 0) \<longrightarrow>
        mean_abs (luma f80) < mean_abs (luma f102400))"
proof -
  let ?raw = "sample_grid gauss (nat n) 0 (nat h) (nat w)"
  let ?f = "\<lambda>p. scaled_field gauss p (nat n) (nat h) (nat w)"
  let ?f80 = "?f (params 0.08 0.32 0.60 0.03 0.95 0.02)"
  let ?f3200 = "?f (params 0.65 0.64 0.80 0.16 0.78 0.15)"
  let ?f102400 = "?f (params 2.30 0.96 0.98 0.55 0.38 0.52)"
  let ?st = "\<lparr>rng_seed = nat n, rng_drawn = 4 * (nat h * nat w)\<rparr>"
  from assms have a: "generate gauss cap ''80'' (PyInt n) w h g = (Inr ?f80, ?st)"
    by (simp add: generate_cases get_80)
  from assms have b: "generate gauss cap ''3200'' (PyInt n) w h k = (Inr ?f3200, ?st)"
    by (simp add: generate_cases get_3200)
  from assms have c: "generate gauss cap ''102400'' (PyInt n) w h l = (Inr ?f102400, ?st)"
    by (simp add: generate_cases get_102400)
  have l80: "luma ?f80 = smul ?raw 0.076"
    by (simp add: scaled_field_def params_def)
  have l3200: "luma ?f3200 = smul ?raw 0.507"
    by (simp add: scaled_field_def params_def)
  have l102400: "luma ?f102400 = smul ?raw 0.874"
    by (simp add: scaled_field_def params_def)
  have m: "0 \<le> mean_abs ?raw" by (rule mean_abs_nonneg)
  from m have d: "5 * mean_abs (luma ?f80) \<le> mean_abs (luma ?f3200)"
    unfolding l80 l3200 mean_abs_smul by simp
  from m have e: "mean_abs (luma ?f80) \<le> mean_abs (luma ?f102400)"
    unfolding l80 l102400 mean_abs_smul by simp
  have s: "mean_abs (luma ?f80) < mean_abs (luma ?f102400)"
    if "\<exists>x\<in>set (concat (luma ?f80)). x \<noteq> 0"
  proof -
    from that have "\<exists>x\<in>set (concat ?raw). x \<noteq> 0"
      unfolding l80 by (rule smul_nonzero)
    then have "0 < mean_abs ?raw" by (rule mean_abs_pos)
    then show ?thesis unfolding l80 l102400 mean_abs_smul by simp
  qed
  from a b c d e s show ?thesis by blast
qed

theorem mean_abs_luma_ordering_witness:
  "(0::int) \<le> 1 \<and> (1::int) \<le> 2 ^ 32 - 1 \<and> (0::int) < 2 \<and> shape_fits 1000000 2 2 \<and>
   (\<exists>f80 f3200 f102400 ga gb gc.
     generate demo_gauss 1000000 ''80'' (PyInt 1) 2 2 \<lparr>rng_seed = 5, rng_drawn = 0\<rparr> =
       (Inr f80, ga) \<and>
     generate demo_gauss 1000000 ''3200'' (PyInt 1) 2 2 \<lparr>rng_seed = 5, rng_drawn = 0\<rparr> =
       (Inr f3200, gb) \<and>
     generate demo_gauss 1000000 ''102400'' (PyInt 1) 2 2 \<lparr>rng_seed = 5, rng_drawn = 0\<rparr> =
       (Inr f102400, gc) \<and>
     (\<exists>x\<in>set (concat (luma f80)). x \<noteq> 0) \<and>
     5 * mean_abs (luma f80) \<le> mean_abs (luma f3200) \<and>
     mean_abs (luma f80) < mean_abs (luma f102400))"
proof -
  have v: "(0::int) \<le> 1" "(1::int) \<le> 2 ^ 32 - 1" "(0::int) < 2" "(0::int) < 2"
    "shape_fits 1000000 2 2"
    by (simp_all add: shape_fits_def)
  let ?g = "\<lparr>rng_seed = 5, rng_drawn = 0\<rparr>"
  from mean_abs_luma_ordering [OF v, of demo_gauss ?g ?g ?g]
  obtain f80 f3200 f102400 ga gb gc where
    a: "generate demo_gauss 1000000 ''80'' (PyInt 1) 2 2 ?g = (Inr f80, ga)"
    and b: "generate demo_gauss 1000000 ''3200'' (PyInt 1) 2 2 ?g = (Inr f3200, gb)"
    and c: "generate demo_gauss 1000000 ''102400'' (PyInt 1) 2 2 ?g = (Inr f102400, gc)"
    and d: "5 * mean_abs (luma f80) \<le> mean_abs (luma f3200)"
    and e: "(\<exists>x\<in>set (concat (luma f80)). x \<noteq> 0) \<longrightarrow>
        mean_abs (luma f80) < mean_abs (luma f102400)"
    by blast
  from a have "luma f80 = smul [[1 / 2, 3 / 4], [1, 5 / 4]] 0.076"
    by (auto simp add: generate_cases get_80 scaled_field_def params_def demo_grid_22
        shape_fits_def)
  then have nz: "\<exists>x\<in>set (concat (luma f80)). x \<noteq> 0"
    by (simp add: smul_def)
  with e have "mean_abs (luma f80) < mean_abs (luma f102400)" by blast
  with a b c d nz v show ?thesis by blast
qed

subsection \<open>Float64 rounding\<close>

lemma fl64_scaled:
  assumes "2 ^ 52 \<le> \<bar>x\<bar> * 2 ^ k" and "\<bar>x\<bar> * 2 ^ k < 2 ^ 53"
  shows "fl64 x = of_int (round_half_even (x * 2 ^ k)) / 2 ^ k"
proof -
  from assms(1) have nz: "x \<noteq> 0" by auto
  then have pos: "0 < \<bar>x\<bar>" by simp
  have p: "2 powr (of_int (52 - int k)) = 2 ^ 52 / (2 ^ k :: real)"
    by (simp add: powr_diff powr_realpow)
  have q: "2 powr (of_int (52 - int k) + 1) = 2 ^ 53 / (2 ^ k :: real)"
    by (simp add: powr_add powr_diff powr_realpow)
  from assms
  have "2 powr (of_int (52 - int k)) \<le> \<bar>x\<bar>" "\<bar>x\<bar> < 2 powr (of_int (52 - int k) + 1)"
    unfolding p q by (simp_all add: field_simps)
  with pos have "\<lfloor>log 2 \<bar>x\<bar>\<rfloor> = 52 - int k"
    by (simp add: floor_log_eq_powr_iff)
  then have "2 powr (of_int \<lfloor>log 2 \<bar>x\<bar>\<rfloor> - 52) = 1 / (2 ^ k :: real)"
    by (simp add: powr_minus_divide powr_realpow)
  with nz show ?thesis by (simp add: fl64_def Let_def)
qed

lemma round_half_even_error: "\<bar>of_int (round_half_even y) - y\<bar> \<le> 1 / 2"
proof -
  have "of_int \<lfloor>y\<rfloor> \<le> y" "y < of_int \<lfloor>y\<rfloor> + 1" by linarith+
  then show ?thesis by (auto simp add: round_half_even_def Let_def)
qed

lemma fl64_error: "\<bar>fl64 x - x\<bar> \<le> \<bar>x\<bar> / 2 ^ 53"
proof (cases "x = 0")
  case True
  then show ?thesis by (simp add: fl64_def)
next
  case False
  define e where "e = \<lfloor>log 2 \<bar>x\<bar>\<rfloor>"
  define ulp :: real where "ulp = 2 powr (of_int e - 52)"
  have up: "0 < ulp" by (simp add: ulp_def)
  have f: "fl64 x = of_int (round_half_even (x / ulp)) * ulp"
    using False by (simp add: fl64_def Let_def ulp_def e_def)
  have "fl64 x - x = (of_int (round_half_even (x / ulp)) - x / ulp) * ulp"
    using up by (simp add: f field_simps)
  then have "\<bar>fl64 x - x\<bar> = \<bar>of_int (round_half_even (x / ulp)) - x / ulp\<bar> * ulp"
    using up by (simp add: abs_mult)
  also have "\<dots> \<le> 1 / 2 * ulp"
    using up round_half_even_error [of "x / ulp"] by (simp add: mult_right_mono)
  finally have a: "\<bar>fl64 x - x\<bar> \<le> ulp / 2" by simp
  have "of_int e \<le> log 2 \<bar>x\<bar>" by (simp add: e_def)
  then have "2 powr (of_int e) \<le> 2 powr (log 2 \<bar>x\<bar>)" by (simp add: powr_le_cancel_iff)
  with False have b: "2 powr (of_int e) \<le> \<bar>x\<bar>" by simp
  have "ulp = 2 powr (of_int e) / 2 ^ 52"
    by (simp add: ulp_def powr_diff)
  with b have "ulp / 2 \<le> \<bar>x\<bar> / 2 ^ 53" by (simp add: field_simps)
  with a show ?thesis by linarith
qed

lemma fl64_pos: "0 < x \<Longrightarrow> 0 < fl64 x"
proof -
  assume p: "0 < x"
  have "x - fl64 x \<le> \<bar>fl64 x - x\<bar>" by linarith
  also have "\<dots> \<le> \<bar>x\<bar> / 2 ^ 53" by (rule fl64_error)
  finally have "x - fl64 x \<le> x / 2 ^ 53" using p by simp
  moreover from p have "x / 2 ^ 53 < x" by simp
  ultimately show ?thesis by linarith
qed

lemma two_products_error:
  "\<bar>fl64 (fl64 (x * i) * l) - x * i * l\<bar> \<le> (2 / 2 ^ 53 + 1 / 2 ^ 106) * \<bar>x * i * l\<bar>"
proof -
  define a where "a = fl64 (x * i)"
  define t where "t = \<bar>x * i * l\<bar>"
  have t0: "0 \<le> t" by (simp add: t_def)
  have "\<bar>a - x * i\<bar> \<le> \<bar>x * i\<bar> / 2 ^ 53" unfolding a_def by (rule fl64_error)
  then have "\<bar>a - x * i\<bar> * \<bar>l\<bar> \<le> \<bar>x * i\<bar> / 2 ^ 53 * \<bar>l\<bar>"
    by (rule mult_right_mono) simp
  then have s1: "\<bar>a * l - x * i * l\<bar> \<le> t / 2 ^ 53"
    by (simp add: t_def abs_mult [symmetric] left_diff_distrib)
  have "\<bar>a * l\<bar> \<le> \<bar>a * l - x * i * l\<bar> + \<bar>x * i * l\<bar>" by linarith
  with s1 have al: "\<bar>a * l\<bar> \<le> t / 2 ^ 53 + t" by (simp add: t_def)
  have "\<bar>fl64 (a * l) - a * l\<bar> \<le> \<bar>a * l\<bar> / 2 ^ 53" by (rule fl64_error)
  also from al have "\<dots> \<le> (t / 2 ^ 53 + t) / 2 ^ 53" by (simp add: divide_right_mono)
  finally have s2: "\<bar>fl64 (a * l) - a * l\<bar> \<le> (t / 2 ^ 53 + t) / 2 ^ 53" .
  have "\<bar>fl64 (a * l) - x * i * l\<bar> \<le> \<bar>fl64 (a * l) - a * l\<bar> + \<bar>a * l - x * i * l\<bar>"
    by linarith
  with s1 s2 have "\<bar>fl64 (a * l) - x * i * l\<bar> \<le> (t / 2 ^ 53 + t) / 2 ^ 53 + t / 2 ^ 53"
    by linarith
  also have "\<dots> = (2 / 2 ^ 53 + 1 / 2 ^ 106) * t" by (simp add: field_simps)
  finally show ?thesis by (simp add: a_def t_def)
qed

lemma rescaled_pair_error:
  assumes c: "0 < (c1::real)" "0 < c2"
    and y1: "\<bar>y1 - x * c1\<bar> \<le> (2 / 2 ^ 53 + 1 / 2 ^ 106) * \<bar>x * c1\<bar>"
    and y2: "\<bar>y2 - x * c2\<bar> \<le> (2 / 2 ^ 53 + 1 / 2 ^ 106) * \<bar>x * c2\<bar>"
  shows "\<bar>y2 - y1 * (c2 / c1)\<bar> \<le> \<bar>y2\<bar> / 2 ^ 50"
proof -
  define eps :: real where "eps = 2 / 2 ^ 53 + 1 / 2 ^ 106"
  define t where "t = \<bar>x\<bar> * c2"
  define d where "d = \<bar>y2 - y1 * (c2 / c1)\<bar>"
  define d1 where "d1 = \<bar>y1 * (c2 / c1) - x * c2\<bar>"
  define d2 where "d2 = \<bar>y2 - x * c2\<bar>"
  define n where "n = \<bar>y2\<bar>"
  have t0: "0 \<le> t" using c by (simp add: t_def)
  have e2: "d2 \<le> eps * t"
    using y2 c by (simp add: eps_def t_def d2_def abs_mult)
  have "\<bar>y1 - x * c1\<bar> * (c2 / c1) \<le> (eps * \<bar>x * c1\<bar>) * (c2 / c1)"
    using y1 c unfolding eps_def by (intro mult_right_mono) simp_all
  also have "\<dots> = eps * t" using c by (simp add: t_def abs_mult)
  finally have "\<bar>y1 - x * c1\<bar> * \<bar>c2 / c1\<bar> \<le> eps * t" using c by simp
  then have "\<bar>(y1 - x * c1) * (c2 / c1)\<bar> \<le> eps * t" by (simp only: abs_mult)
  moreover have "(y1 - x * c1) * (c2 / c1) = y1 * (c2 / c1) - x * c2"
    using c by (simp add: field_simps)
  ultimately have e1: "d1 \<le> eps * t" by (simp only: d1_def)
  have tri: "\<bar>a - b\<bar> \<le> \<bar>a - m\<bar> + \<bar>b - m\<bar>" for a b m :: real by linarith
  have "d \<le> d2 + d1" unfolding d_def d1_def d2_def by (rule tri)
  with e1 e2 have dd: "d \<le> 2 * (eps * t)" by linarith
  have tri2: "\<bar>m\<bar> \<le> \<bar>a\<bar> + \<bar>a - m\<bar>" for a m :: real by linarith
  have "\<bar>x * c2\<bar> \<le> n + d2" unfolding n_def d2_def by (rule tri2)
  moreover have "\<bar>x * c2\<bar> = t" using c by (simp add: t_def abs_mult)
  ultimately have "t \<le> n + eps * t" using e2 by linarith
  then have k: "(1 - eps) * t \<le> n" by (simp add: algebra_simps)
  have "2 * eps * 2 ^ 50 \<le> 1 - eps" by (simp add: eps_def)
  then have "2 * eps * 2 ^ 50 * t \<le> (1 - eps) * t" using t0 by (rule mult_right_mono)
  with k have "2 * eps * 2 ^ 50 * t \<le> n" by linarith
  then have "2 * (eps * t) \<le> n / 2 ^ 50" by (simp add: field_simps)
  with dd have "d \<le> n / 2 ^ 50" by linarith
  then show ?thesis by (simp only: d_def n_def)
qed

text \<open>
  The float64 values of the four literals of the entries \<^verbatim>\<open>"80"\<close> and \<^verbatim>\<open>"3200"\<close>, and the
  products of line 120 for the raw sample \<open>-2378674106681321 / 2\<^sup>5\<^sup>2\<close>, which prints as
  \<open>-0.5281717522634557\<close>.
\<close>

lemma f64_008:
  "fl64 (0.08) =
   5764607523034235 / 2 ^ 56"
  by (subst fl64_scaled [where k = 56]) (simp_all add: round_half_even_def)

lemma f64_095:
  "fl64 (0.95) =
   8556839292003942 / 2 ^ 53"
  by (subst fl64_scaled [where k = 53]) (simp_all add: round_half_even_def)

lemma f64_065:
  "fl64 (0.65) =
   5854679515581645 / 2 ^ 53"
  by (subst fl64_scaled [where k = 53]) (simp_all add: round_half_even_def)

lemma f64_078:
  "fl64 (0.78) =
   7025615418697974 / 2 ^ 53"
  by (subst fl64_scaled [where k = 53]) (simp_all add: round_half_even_def)

lemma f64_raw_008:
  "fl64 (- 2378674106681321 / 2 ^ 52 * (5764607523034235 / 2 ^ 56)) =
   - 6089405713104182 / 2 ^ 57"
  by (subst fl64_scaled [where k = 57]) (simp_all add: round_half_even_def)

lemma f64_raw_008_095:
  "fl64 (- 6089405713104182 / 2 ^ 57 * (8556839292003942 / 2 ^ 53)) =
   - 5784935427448973 / 2 ^ 57"
  by (subst fl64_scaled [where k = 57]) (simp_all add: round_half_even_def)

lemma f64_raw_065:
  "fl64 (- 2378674106681321 / 2 ^ 52 * (5854679515581645 / 2 ^ 53)) =
   - 6184552677371435 / 2 ^ 54"
  by (subst fl64_scaled [where k = 54]) (simp_all add: round_half_even_def)

lemma f64_raw_065_078:
  "fl64 (- 6184552677371435 / 2 ^ 54 * (7025615418697974 / 2 ^ 53)) =
   - 4823951088349719 / 2 ^ 54"
  by (subst fl64_scaled [where k = 54]) (simp_all add: round_half_even_def)

lemma f64_065_078:
  "fl64 (5854679515581645 / 2 ^ 53 * (7025615418697974 / 2 ^ 53)) =
   4566650022153683 / 2 ^ 53"
  by (subst fl64_scaled [where k = 53]) (simp_all add: round_half_even_def)

lemma f64_008_095:
  "fl64 (5764607523034235 / 2 ^ 56 * (8556839292003942 / 2 ^ 53)) =
   5476377146882523 / 2 ^ 56"
  by (subst fl64_scaled [where k = 56]) (simp_all add: round_half_even_def)

lemma f64_ratio:
  "fl64 (4566650022153683 / 2 ^ 53 / (5476377146882523 / 2 ^ 56)) =
   7510937536436979 / 2 ^ 50"
  by (subst fl64_scaled [where k = 50]) (simp_all add: round_half_even_def)

lemma f64_luma80_ratio:
  "fl64 (- 5784935427448973 / 2 ^ 57 * (7510937536436979 / 2 ^ 50)) =
   - 4823951088349720 / 2 ^ 54"
  by (subst fl64_scaled [where k = 54]) (simp_all add: round_half_even_def)

lemma luma_f64_80:
  "luma_f64 (params 0.08 0.32 0.60 0.03 0.95 0.02) [[- 2378674106681321 / 2 ^ 52]] =
   [[- 5784935427448973 / 2 ^ 57]]"
  by (simp only: luma_f64_def smul_f64_def params_def grain_params.simps list.map
      f64_008 f64_095 f64_raw_008 f64_raw_008_095)

lemma luma_f64_3200:
  "luma_f64 (params 0.65 0.64 0.80 0.16 0.78 0.15) [[- 2378674106681321 / 2 ^ 52]] =
   [[- 4823951088349719 / 2 ^ 54]]"
  by (simp only: luma_f64_def smul_f64_def params_def grain_params.simps list.map
      f64_065 f64_078 f64_raw_065 f64_raw_065_078)

lemma table_positive:
  "p \<in> snd ` set GRAIN_PARAMETERS \<Longrightarrow> 0 < intensity p \<and> 0 < luma_influence p"
  by (auto simp add: GRAIN_PARAMETERS_def params_def)

lemma luma_f64_rescaled:
  assumes "0 < intensity p1" "0 < luma_influence p1" "0 < intensity p2" "0 < luma_influence p2"
  shows "list_all2 (list_all2 (\<lambda>y2 y1.
            \<bar>y2 - y1 * ((fl64 (intensity p2) * fl64 (luma_influence p2)) /
                        (fl64 (intensity p1) * fl64 (luma_influence p1)))\<bar> \<le> \<bar>y2\<bar> / 2 ^ 50))
          (luma_f64 p2 raw) (luma_f64 p1 raw)"
proof -
  define c1 where "c1 = fl64 (intensity p1) * fl64 (luma_influence p1)"
  define c2 where "c2 = fl64 (intensity p2) * fl64 (luma_influence p2)"
  from assms have c: "0 < c1" "0 < c2"
    by (simp_all add: c1_def c2_def fl64_pos)
  have e: "\<bar>fl64 (fl64 (x * fl64 (intensity p2)) * fl64 (luma_influence p2)) -
          fl64 (fl64 (x * fl64 (intensity p1)) * fl64 (luma_influence p1)) * (c2 / c1)\<bar>
        \<le> \<bar>fl64 (fl64 (x * fl64 (intensity p2)) * fl64 (luma_influence p2))\<bar> / 2 ^ 50"
    for x
  proof (rule rescaled_pair_error [OF c, of _ x])
    show "\<bar>fl64 (fl64 (x * fl64 (intensity p1)) * fl64 (luma_influence p1)) - x * c1\<bar>
        \<le> (2 / 2 ^ 53 + 1 / 2 ^ 106) * \<bar>x * c1\<bar>"
      using two_products_error [of x "fl64 (intensity p1)" "fl64 (luma_influence p1)"]
      by (simp add: c1_def mult.assoc)
    show "\<bar>fl64 (fl64 (x * fl64 (intensity p2)) * fl64 (luma_influence p2)) - x * c2\<bar>
        \<le> (2 / 2 ^ 53 + 1 / 2 ^ 106) * \<bar>x * c2\<bar>"
      using two_products_error [of x "fl64 (intensity p2)" "fl64 (luma_influence p2)"]
      by (simp add: c2_def mult.assoc)
  qed
  have "list_all2 (list_all2 (\<lambda>y2 y1. \<bar>y2 - y1 * (c2 / c1)\<bar> \<le> \<bar>y2\<bar> / 2 ^ 50))
          (luma_f64 p2 raw) (luma_f64 p1 raw)"
    unfolding luma_f64_def smul_f64_def list_all2_map1 list_all2_map2 list_all2_same
    by (intro ballI e)
  then show ?thesis unfolding c1_def c2_def .
qed

text \<open>
  Claim C10, as amended. For one seed and one pair of dimensions, whenever the calls for
  two iso identifiers return fields, the two luma grids are rescalings of one another
  up to the rounding of the products. With exact products the luma grid of the second
  call is the luma grid of the first times
  \<open>(intensity\<^sub>2 * luma_influence\<^sub>2) / (intensity\<^sub>1 * luma_influence\<^sub>1)\<close>, the parameters being
  those the constructor resolves. With the float64 products of line 120, on any one
  luminance grid, every value of the second luma grid differs from the corresponding
  value of the first times that ratio, taken of the float64 parameters, by at most
  \<open>2\<^sup>-\<^sup>5\<^sup>0\<close> of its own size.
\<close>

theorem luma_rescaling:
  assumes "init i1 s = Inr self1" and "init i2 s = Inr self2"
    and "generate gauss cap i1 s w h g = (Inr f1, g1)"
    and "generate gauss cap i2 s w h k = (Inr f2, g2)"
  shows "luma f2 = smul (luma f1)
       ((intensity (parameters self2) * luma_influence (parameters self2)) /
        (intensity (parameters self1) * luma_influence (parameters self1))) \<and>
     list_all2 (list_all2 (\<lambda>y2 y1.
         \<bar>y2 - y1 * ((fl64 (intensity (parameters self2)) *
                        fl64 (luma_influence (parameters self2))) /
                     (fl64 (intensity (parameters self1)) *
                        fl64 (luma_influence (parameters self1))))\<bar> \<le> \<bar>y2\<bar> / 2 ^ 50))
       (luma_f64 (parameters self2) raw) (luma_f64 (parameters self1) raw)"
proof
  let ?d = "params 0.35 0.52 0.72 0.09 0.87 0.08"
  from assms(1) have p1: "parameters self1 = dict_get GRAIN_PARAMETERS i1 ?d"
    by (auto simp add: init_eq)
  from assms(2) have p2: "parameters self2 = dict_get GRAIN_PARAMETERS i2 ?d"
    by (auto simp add: init_eq)
  from assms(3) obtain n
    where n: "s = PyInt n" "0 \<le> n \<and> n \<le> 2 ^ 32 - 1" "shape_fits cap h w"
    by (cases s) (auto simp add: generate_cases split: if_splits)
  let ?raw = "sample_grid gauss (nat n) 0 (nat h) (nat w)"
  from assms(3) n p1
  have l1: "luma f1 =
      smul ?raw (intensity (parameters self1) * luma_influence (parameters self1))"
    by (auto simp add: generate_cases scaled_field_def)
  from assms(4) n p2
  have l2: "luma f2 =
      smul ?raw (intensity (parameters self2) * luma_influence (parameters self2))"
    by (auto simp add: generate_cases scaled_field_def)
  have "0 < intensity (parameters self1) * luma_influence (parameters self1)"
    unfolding p1 by (rule table_scale_pos [OF resolved_in_table])
  then have "intensity (parameters self1) * luma_influence (parameters self1) \<noteq> 0"
    by (rule less_imp_neq [THEN not_sym])
  then show "luma f2 = smul (luma f1)
       ((intensity (parameters self2) * luma_influence (parameters self2)) /
        (intensity (parameters self1) * luma_influence (parameters self1)))"
    unfolding l1 l2 by (rule smul_rescale [symmetric])
  have "0 < intensity (parameters self1) \<and> 0 < luma_influence (parameters self1)"
    unfolding p1 by (rule table_positive [OF resolved_in_table])
  moreover have "0 < intensity (parameters self2) \<and> 0 < luma_influence (parameters self2)"
    unfolding p2 by (rule table_positive [OF resolved_in_table])
  ultimately show "list_all2 (list_all2 (\<lambda>y2 y1.
         \<bar>y2 - y1 * ((fl64 (intensity (parameters self2)) *
                        fl64 (luma_influence (parameters self2))) /
                     (fl64 (intensity (parameters self1)) *
                        fl64 (luma_influence (parameters self1))))\<bar> \<le> \<bar>y2\<bar> / 2 ^ 50))
       (luma_f64 (parameters self2) raw) (luma_f64 (parameters self1) raw)"
    using luma_f64_rescaled [of "parameters self1" "parameters self2" raw] by blast
qed

theorem luma_rescaling_witness:
  "init ''80'' (PyInt 1) =
     Inr \<lparr>iso = ''80'', seed = PyInt 1,
          parameters = params 0.08 0.32 0.60 0.03 0.95 0.02\<rparr> \<and>
   init ''3200'' (PyInt 1) =
     Inr \<lparr>iso = ''3200'', seed = PyInt 1,
          parameters = params 0.65 0.64 0.80 0.16 0.78 0.15\<rparr> \<and>
   generate demo_gauss 1000000 ''80'' (PyInt 1) 2 2 \<lparr>rng_seed = 5, rng_drawn = 0\<rparr> =
     (Inr (scaled_field demo_gauss (params 0.08 0.32 0.60 0.03 0.95 0.02) 1 2 2),
      \<lparr>rng_seed = 1, rng_drawn = 16\<rparr>) \<and>
   generate demo_gauss 1000000 ''3200'' (PyInt 1) 2 2 \<lparr>rng_seed = 7, rng_drawn = 3\<rparr> =
     (Inr (scaled_field demo_gauss (params 0.65 0.64 0.80 0.16 0.78 0.15) 1 2 2),
      \<lparr>rng_seed = 1, rng_drawn = 16\<rparr>) \<and>
   luma (scaled_field demo_gauss (params 0.65 0.64 0.80 0.16 0.78 0.15) 1 2 2) =
     smul (luma (scaled_field demo_gauss (params 0.08 0.32 0.60 0.03 0.95 0.02) 1 2 2))
       ((0.65 * 0.78) / (0.08 * 0.95)) \<and>
   \<bar>- 4823951088349719 / 2 ^ 54 - (- 5784935427448973 / 2 ^ 57) *
      ((5854679515581645 / 2 ^ 53 * (7025615418697974 / 2 ^ 53)) /
       (5764607523034235 / 2 ^ 56 * (8556839292003942 / 2 ^ 53)))\<bar>
     \<le> \<bar>- 4823951088349719 / 2 ^ 54 :: real\<bar> / 2 ^ 50"
proof -
  have a: "init ''80'' (PyInt 1) =
     Inr \<lparr>iso = ''80'', seed = PyInt 1,
          parameters = params 0.08 0.32 0.60 0.03 0.95 0.02\<rparr>"
    by (simp add: init_eq get_80)
  have b: "init ''3200'' (PyInt 1) =
     Inr \<lparr>iso = ''3200'', seed = PyInt 1,
          parameters = params 0.65 0.64 0.80 0.16 0.78 0.15\<rparr>"
    by (simp add: init_eq get_3200)
  have c: "generate demo_gauss 1000000 ''80'' (PyInt 1) 2 2 \<lparr>rng_seed = 5, rng_drawn = 0\<rparr> =
     (Inr (scaled_field demo_gauss (params 0.08 0.32 0.60 0.03 0.95 0.02) 1 2 2),
      \<lparr>rng_seed = 1, rng_drawn = 16\<rparr>)"
    by (simp add: generate_cases get_80 shape_fits_def)
  have d: "generate demo_gauss 1000000 ''3200'' (PyInt 1) 2 2 \<lparr>rng_seed = 7, rng_drawn = 3\<rparr> =
     (Inr (scaled_field demo_gauss (params 0.65 0.64 0.80 0.16 0.78 0.15) 1 2 2),
      \<lparr>rng_seed = 1, rng_drawn = 16\<rparr>)"
    by (simp add: generate_cases get_3200 shape_fits_def)
  note t = luma_rescaling [OF a b c d, of "[[- 2378674106681321 / 2 ^ 52]]"]
  from t have e: "luma (scaled_field demo_gauss (params 0.65 0.64 0.80 0.16 0.78 0.15) 1 2 2) =
     smul (luma (scaled_field demo_gauss (params 0.08 0.32 0.60 0.03 0.95 0.02) 1 2 2))
       ((0.65 * 0.78) / (0.08 * 0.95))"
    by (simp add: params_def)
  from t have "list_all2 (list_all2 (\<lambda>y2 y1.
         \<bar>y2 - y1 * ((fl64 0.65 * fl64 0.78) / (fl64 0.08 * fl64 0.95))\<bar> \<le> \<bar>y2\<bar> / 2 ^ 50))
       (luma_f64 (params 0.65 0.64 0.80 0.16 0.78 0.15) [[- 2378674106681321 / 2 ^ 52]])
       (luma_f64 (params 0.08 0.32 0.60 0.03 0.95 0.02) [[- 2378674106681321 / 2 ^ 52]])"
    by (simp add: params_def)
  then have f: "\<bar>- 4823951088349719 / 2 ^ 54 - (- 5784935427448973 / 2 ^ 57) *
      ((5854679515581645 / 2 ^ 53 * (7025615418697974 / 2 ^ 53)) /
       (5764607523034235 / 2 ^ 56 * (8556839292003942 / 2 ^ 53)))\<bar>
     \<le> \<bar>- 4823951088349719 / 2 ^ 54 :: real\<bar> / 2 ^ 50"
    by (simp only: luma_f64_80 luma_f64_3200 f64_008 f64_095 f64_065 f64_078
        list_all2_Cons list_all2_Nil2 simp_thms)
  from a b c d e f show ?thesis by blast
qed

text \<open>
  Claim C10 as stated fails on the float64 products of line 120. Take the raw luminance
  sample \<open>-0.5281717522634557\<close>. For \<^verbatim>\<open>"80"\<close> line 120 gives \<open>-0.040141053172022635\<close>
  and for \<^verbatim>\<open>"3200"\<close> it gives \<open>-0.26778307839757204\<close>, the float64 value
  \<open>-4823951088349719 / 2\<^sup>5\<^sup>4\<close>. The first times the ratio
  \<open>(0.65 * 0.78) / (0.08 * 0.95)\<close>, all in float64, is \<open>-0.2677830783975721\<close>, the next
  float64 value \<open>-4823951088349720 / 2\<^sup>5\<^sup>4\<close>; and the first times the exact ratio is
  not the second either.
\<close>

theorem luma_rescaling_counterexample:
  "init ''80'' (PyInt 1) =
     Inr \<lparr>iso = ''80'', seed = PyInt 1,
          parameters = params 0.08 0.32 0.60 0.03 0.95 0.02\<rparr> \<and>
   init ''3200'' (PyInt 1) =
     Inr \<lparr>iso = ''3200'', seed = PyInt 1,
          parameters = params 0.65 0.64 0.80 0.16 0.78 0.15\<rparr> \<and>
   luma_f64 (params 0.08 0.32 0.60 0.03 0.95 0.02) [[- 2378674106681321 / 2 ^ 52]] =
     [[- 5784935427448973 / 2 ^ 57]] \<and>
   luma_f64 (params 0.65 0.64 0.80 0.16 0.78 0.15) [[- 2378674106681321 / 2 ^ 52]] =
     [[- 4823951088349719 / 2 ^ 54]] \<and>
   fl64 (fl64 (fl64 0.65 * fl64 0.78) / fl64 (fl64 0.08 * fl64 0.95)) =
     7510937536436979 / 2 ^ 50 \<and>
   smul_f64 [[- 5784935427448973 / 2 ^ 57]] (7510937536436979 / 2 ^ 50) =
     [[- 4823951088349720 / 2 ^ 54]] \<and>
   [[- 4823951088349720 / 2 ^ 54 :: real]] \<noteq> [[- 4823951088349719 / 2 ^ 54]] \<and>
   smul [[- 5784935427448973 / 2 ^ 57]] ((0.65 * 0.78) / (0.08 * 0.95)) \<noteq>
     [[- 4823951088349719 / 2 ^ 54]]"
proof -
  have i80: "init ''80'' (PyInt 1) =
     Inr \<lparr>iso = ''80'', seed = PyInt 1,
          parameters = params 0.08 0.32 0.60 0.03 0.95 0.02\<rparr>"
    by (simp add: init_eq get_80)
  have i32: "init ''3200'' (PyInt 1) =
     Inr \<lparr>iso = ''3200'', seed = PyInt 1,
          parameters = params 0.65 0.64 0.80 0.16 0.78 0.15\<rparr>"
    by (simp add: init_eq get_3200)
  have r: "fl64 (fl64 (fl64 0.65 * fl64 0.78) / fl64 (fl64 0.08 * fl64 0.95)) =
     7510937536436979 / 2 ^ 50"
    by (simp only: f64_008 f64_095 f64_065 f64_078 f64_065_078 f64_008_095 f64_ratio)
  have m: "smul_f64 [[- 5784935427448973 / 2 ^ 57]] (7510937536436979 / 2 ^ 50) =
     [[- 4823951088349720 / 2 ^ 54]]"
    by (simp only: smul_f64_def list.map f64_luma80_ratio)
  have n: "[[- 4823951088349720 / 2 ^ 54 :: real]] \<noteq> [[- 4823951088349719 / 2 ^ 54]]"
    by simp
  have e: "smul [[- 5784935427448973 / 2 ^ 57]] ((0.65 * 0.78) / (0.08 * 0.95)) \<noteq>
     [[- 4823951088349719 / 2 ^ 54]]"
    by (simp add: smul_def)
  from i80 i32 luma_f64_80 luma_f64_3200 r m n e show ?thesis by blast
qed

end
